theory Spec2Isabelle
  imports Main "HOL-Library.Sublist"
begin

section \<open>Version comparison (tasks/persistent-relay.md, Task 3)\<close>

text \<open>
  \<^verbatim>\<open>v.split('.')\<close>: the pieces of a string between its dots. The empty string has the
  single piece \<open>''''\<close>, and a trailing dot gives a last empty piece, as in JavaScript.
\<close>

fun split_dot :: "string \<Rightarrow> string list" where
  "split_dot [] = [[]]"
| "split_dot (c # cs) =
     (if c = CHR ''.'' then [] # split_dot cs
      else (case split_dot cs of
              [] \<Rightarrow> [[c]]
            | p # ps \<Rightarrow> (c # p) # ps))"

definition is_digit :: "char \<Rightarrow> bool" where
  "is_digit c = (48 \<le> (of_char c :: nat) \<and> (of_char c :: nat) \<le> 57)"

definition digit_value :: "char \<Rightarrow> nat" where
  "digit_value c = of_char c - 48"

definition decimal_value :: "string \<Rightarrow> nat" where
  "decimal_value s = foldl (\<lambda>a c. 10 * a + digit_value c) 0 s"

text \<open>
  \<^verbatim>\<open>Number(piece)\<close> on one piece of a version string; \<open>None\<close> stands for NaN.
  A piece of decimal digits is its value and the empty piece is 0. Every other piece
  (a pre-release tag such as \<open>0-beta\<close>) is NaN. Values are exact integers, which is
  what a JavaScript number holds below \<open>2^53\<close>. The other numeric literals that
  \<^verbatim>\<open>Number\<close> accepts (signs, exponents, hexadecimal, surrounding white space) are not
  version components and are not modelled: the statements below that depend on the value
  of a piece are about numeric version strings.
\<close>

definition Number_js :: "string \<Rightarrow> int option" where
  "Number_js s = (if list_all is_digit s then Some (int (decimal_value s)) else None)"

text \<open>\<^verbatim>\<open>parts[i] || 0\<close>: a missing index (undefined), NaN and 0 all give 0.\<close>

definition part_or_zero :: "int option list \<Rightarrow> nat \<Rightarrow> int" where
  "part_or_zero parts i =
     (if i < length parts then (case parts ! i of None \<Rightarrow> 0 | Some n \<Rightarrow> n) else 0)"

function compare_from :: "int option list \<Rightarrow> int option list \<Rightarrow> nat \<Rightarrow> nat \<Rightarrow> int" where
  "compare_from parts1 parts2 len i =
     (if i < len then
        (let p1 = part_or_zero parts1 i; p2 = part_or_zero parts2 i
         in if p1 \<noteq> p2 then p1 - p2 else compare_from parts1 parts2 len (i + 1))
      else 0)"
  by pat_completeness auto
termination
  by (relation "measure (\<lambda>(parts1, parts2, len, i). len - i)") auto

definition compareVersions :: "string \<Rightarrow> string \<Rightarrow> int" where
  "compareVersions v1 v2 =
     (let parts1 = map Number_js (split_dot v1);
          parts2 = map Number_js (split_dot v2);
          len = max (length parts1) (length parts2)
      in compare_from parts1 parts2 len 0)"

text \<open>A numeric version string: non-empty pieces of decimal digits, separated by dots.\<close>

definition numeric_version :: "string \<Rightarrow> bool" where
  "numeric_version v = list_all (\<lambda>p. p \<noteq> [] \<and> list_all is_digit p) (split_dot v)"

section \<open>Error classes (playwriter/src/errors.ts)\<close>

text \<open>\<^verbatim>\<open>${port}\<close> in a template literal: the decimal digits of the number.\<close>

fun decimal_string :: "nat \<Rightarrow> string" where
  "decimal_string n =
     (if n < 10 then [''0123456789'' ! n]
      else decimal_string (n div 10) @ [''0123456789'' ! (n mod 10)])"

record relay_error =
  name :: string
  message :: string
  port :: nat

definition RelayServerError :: "string \<Rightarrow> nat \<Rightarrow> relay_error" where
  "RelayServerError msg p =
     \<lparr>name = ''RelayServerError'',
      message = ''[Playwriter] '' @ msg @ '' (port '' @ decimal_string p @ '')'',
      port = p\<rparr>"

definition ExtensionNotConnectedError :: "nat \<Rightarrow> relay_error" where
  "ExtensionNotConnectedError p =
     (RelayServerError
        ''Extension not connected. Please click the Playwriter extension icon on a Chrome tab.''
        p)
     \<lparr>name := ''ExtensionNotConnectedError''\<rparr>"

text \<open>\<open>log_file_path\<close> is the constant \<^verbatim>\<open>LOG_FILE_PATH\<close> of utils.js.\<close>

definition RelayServerStartError :: "string \<Rightarrow> nat \<Rightarrow> relay_error" where
  "RelayServerStartError log_file_path p =
     (RelayServerError
        (''Failed to start relay server. Check logs at: '' @ log_file_path)
        p)
     \<lparr>name := ''RelayServerStartError''\<rparr>"

section \<open>The lifecycle supervisor and the wait utility (tasks/persistent-relay.md)\<close>

subsection \<open>The world outside the functions\<close>

text \<open>
  What the functions do to the outside is written to a trace, in order; the clock is
  \<^verbatim>\<open>Date.now()\<close>, in milliseconds.
\<close>

datatype action =
    Fetch_version nat
  | Fetch_extension_status nat
  | Kill_port nat
  | Sleep nat
  | Spawn_detached bool

record world =
  clock :: nat
  trace :: "action list"

text \<open>
  A \<^verbatim>\<open>fetch\<close> followed by \<^verbatim>\<open>response.json()\<close>: either something throws (connection
  refused, the abort signal, a body that is not JSON), or there is a response with its
  \<^verbatim>\<open>ok\<close> flag and its body, of the type the code asserts for it.
\<close>

datatype 'b fetch_result = Fetch_throws | Response bool 'b

record page_entry =
  page_targetId :: string
  page_url :: string
  page_title :: string

record ExtensionStatus =
  connected :: bool
  pageCount :: nat
  pages :: "page_entry list"

text \<open>
  The environment: the constants of utils.js (\<^verbatim>\<open>VERSION\<close>, \<^verbatim>\<open>LOG_FILE_PATH\<close>), the
  \<^verbatim>\<open>PLAYWRITER_NODE_ENV\<close> setting, and how the outside answers, each answer a function
  of the world so far (the time and everything done before).
\<close>

record env =
  VERSION :: string
  LOG_FILE_PATH :: string
  development :: bool
  version_endpoint :: "nat \<Rightarrow> world \<Rightarrow> string fetch_result"
  status_endpoint :: "nat \<Rightarrow> world \<Rightarrow> ExtensionStatus fetch_result"
  kill_succeeds :: "nat \<Rightarrow> world \<Rightarrow> bool"
  duration :: "world \<Rightarrow> nat"

definition perform :: "env \<Rightarrow> action \<Rightarrow> world \<Rightarrow> world" where
  "perform e a w =
     (let w' = w\<lparr>trace := trace w @ [a]\<rparr>
      in w'\<lparr>clock := clock w' + duration e w'\<rparr>)"

text \<open>
  Modelled from the spec: \<^verbatim>\<open>sleep(ms)\<close> is a helper of utils.js, which is not among the
  sources. It is the wait between two polls (``poll every ~500 ms''), a timer: it resumes
  no earlier than \<open>ms\<close> milliseconds later, a timer of less than one millisecond waits one
  millisecond, and how late it resumes is the environment's.
\<close>

definition sleep :: "env \<Rightarrow> nat \<Rightarrow> world \<Rightarrow> world" where
  "sleep e ms w = perform e (Sleep ms) (w\<lparr>clock := clock w + max 1 ms\<rparr>)"

subsection \<open>ensurePersistentRelay\<close>

definition DEFAULT_PORT :: nat where
  "DEFAULT_PORT = 19988"

definition DEFAULT_TIMEOUT :: int where
  "DEFAULT_TIMEOUT = 10000"

definition getServerVersion :: "env \<Rightarrow> nat \<Rightarrow> world \<Rightarrow> string option \<times> world" where
  "getServerVersion e p w =
     (case version_endpoint e p w of
        Fetch_throws \<Rightarrow> (None, perform e (Fetch_version p) w)
      | Response ok v \<Rightarrow>
          (if \<not> ok then (None, perform e (Fetch_version p) w)
           else (Some v, perform e (Fetch_version p) w)))"

record EnsurePersistentRelayResult =
  started :: bool
  version :: string
  result_port :: nat

record ensure_options =
  opt_port :: "nat option"
  opt_timeout :: "int option"

text \<open>The polling loop at the end of \<^verbatim>\<open>ensurePersistentRelay\<close>.\<close>

function poll_until_ready ::
  "env \<Rightarrow> nat \<Rightarrow> int \<Rightarrow> nat \<Rightarrow> world \<Rightarrow> (relay_error + EnsurePersistentRelayResult) \<times> world"
where
  "poll_until_ready e p timeout startTime w =
     (if int (clock w) - int startTime < timeout then
        (case getServerVersion e p (sleep e 500 w) of
           (v, w') \<Rightarrow>
             if v = Some (VERSION e)
             then (Inr \<lparr>started = True, version = VERSION e, result_port = p\<rparr>, w')
             else poll_until_ready e p timeout startTime w')
      else (Inl (RelayServerStartError (LOG_FILE_PATH e) p), w))"
  by pat_completeness auto


lemma clock_sleep: "clock w + max 1 ms \<le> clock (sleep e ms w)"
  by (simp add: sleep_def perform_def Let_def)

lemma clock_getServerVersion: "getServerVersion e p w = (v, w') \<Longrightarrow> clock w \<le> clock w'"
  by (auto simp: getServerVersion_def perform_def Let_def split: fetch_result.splits if_splits)

lemma poll_progress:
  "(v, w') = getServerVersion e p (sleep e 500 w) \<Longrightarrow> clock w + 500 \<le> clock w'"
  using clock_getServerVersion [of e p "sleep e 500 w" v w'] clock_sleep [of w 500 e]
  by simp

termination poll_until_ready
  apply (relation "measure (\<lambda>(e, p, timeout, startTime, w).
                     nat (timeout - (int (clock w) - int startTime)))")
   apply simp
  apply (auto dest!: poll_progress)
  done

text \<open>
  \<^verbatim>\<open>try { await killPortProcess(port); await sleep(500) } catch {}\<close>: when the kill
  throws, the sleep is skipped and the error is dropped.
\<close>

definition kill_old_version :: "env \<Rightarrow> nat \<Rightarrow> world \<Rightarrow> world" where
  "kill_old_version e p w =
     (if kill_succeeds e p w then sleep e 500 (perform e (Kill_port p) w)
      else perform e (Kill_port p) w)"

text \<open>\<^verbatim>\<open>options?.port ?? DEFAULT_PORT\<close> and \<^verbatim>\<open>options?.timeout ?? DEFAULT_TIMEOUT\<close>.\<close>

definition ensure_port :: "ensure_options option \<Rightarrow> nat" where
  "ensure_port options =
     (case options of None \<Rightarrow> DEFAULT_PORT
      | Some opts \<Rightarrow> (case opt_port opts of None \<Rightarrow> DEFAULT_PORT | Some x \<Rightarrow> x))"

definition ensure_timeout :: "ensure_options option \<Rightarrow> int" where
  "ensure_timeout options =
     (case options of None \<Rightarrow> DEFAULT_TIMEOUT
      | Some opts \<Rightarrow> (case opt_timeout opts of None \<Rightarrow> DEFAULT_TIMEOUT | Some x \<Rightarrow> x))"

text \<open>From the spawn of the detached child to the end of the function.\<close>

definition spawn_and_poll ::
  "env \<Rightarrow> nat \<Rightarrow> int \<Rightarrow> world \<Rightarrow> (relay_error + EnsurePersistentRelayResult) \<times> world"
where
  "spawn_and_poll e p timeout w =
     (let w' = perform e (Spawn_detached (development e)) w;
          startTime = clock w'
      in poll_until_ready e p timeout startTime w')"

definition ensurePersistentRelay ::
  "env \<Rightarrow> ensure_options option \<Rightarrow> world \<Rightarrow> (relay_error + EnsurePersistentRelayResult) \<times> world"
where
  "ensurePersistentRelay e options w =
     (let p = ensure_port options;
          timeout = ensure_timeout options
      in case getServerVersion e p w of
           (existingVersion, w1) \<Rightarrow>
             (case existingVersion of
                Some ev \<Rightarrow>
                  if compareVersions ev (VERSION e) \<ge> 0
                  then (Inr \<lparr>started = False, version = ev, result_port = p\<rparr>, w1)
                  else spawn_and_poll e p timeout (kill_old_version e p w1)
              | None \<Rightarrow> spawn_and_poll e p timeout w1))"

subsection \<open>waitForExtension\<close>

record WaitForExtensionResult =
  wf_connected :: bool
  wf_pageCount :: nat

record wait_options =
  wopt_port :: "nat option"
  wopt_timeout :: "int option"
  wopt_pollInterval :: "nat option"

text \<open>
  One pass of the \<^verbatim>\<open>try\<close> block: the fetch of \<^verbatim>\<open>/extension-status\<close>. \<open>Some\<close> is the
  \<^verbatim>\<open>return\<close> inside the block; \<open>None\<close> is falling through to the sleep (a response
  that is not ok, a status that is not ready, or an exception, which the \<^verbatim>\<open>catch\<close>
  drops).
\<close>

definition poll_status :: "env \<Rightarrow> nat \<Rightarrow> world \<Rightarrow> WaitForExtensionResult option \<times> world" where
  "poll_status e p w =
     (case status_endpoint e p w of
        Fetch_throws \<Rightarrow> (None, perform e (Fetch_extension_status p) w)
      | Response ok status \<Rightarrow>
          (if ok \<and> connected status \<and> pageCount status > 0
           then (Some \<lparr>wf_connected = True, wf_pageCount = pageCount status\<rparr>,
                 perform e (Fetch_extension_status p) w)
           else (None, perform e (Fetch_extension_status p) w)))"

lemma clock_poll_status: "poll_status e p w = (r, w') \<Longrightarrow> clock w \<le> clock w'"
  by (auto simp: poll_status_def perform_def Let_def split: fetch_result.splits if_splits)

function wait_loop ::
  "env \<Rightarrow> nat \<Rightarrow> int \<Rightarrow> nat \<Rightarrow> nat \<Rightarrow> world \<Rightarrow> (relay_error + WaitForExtensionResult) \<times> world"
where
  "wait_loop e p timeout pollInterval startTime w =
     (if int (clock w) - int startTime < timeout then
        (case poll_status e p w of
           (Some r, w') \<Rightarrow> (Inr r, w')
         | (None, w') \<Rightarrow> wait_loop e p timeout pollInterval startTime (sleep e pollInterval w'))
      else (Inl (ExtensionNotConnectedError p), w))"
  by pat_completeness auto

lemma wait_progress:
  "(None, w') = poll_status e p w \<Longrightarrow> clock w < clock (sleep e pollInterval w')"
  using clock_poll_status [of e p w None w'] clock_sleep [of w' pollInterval e]
  by simp

termination wait_loop
  apply (relation "measure (\<lambda>(e, p, timeout, pollInterval, startTime, w).
                     nat (timeout - (int (clock w) - int startTime)))")
   apply simp
  apply (auto dest!: wait_progress)
  done

text \<open>The three defaults of \<^verbatim>\<open>waitForExtension\<close>, each \<^verbatim>\<open>options?.field ?? default\<close>.\<close>

definition wait_port :: "wait_options option \<Rightarrow> nat" where
  "wait_port options =
     (case options of None \<Rightarrow> DEFAULT_PORT
      | Some opts \<Rightarrow> (case wopt_port opts of None \<Rightarrow> DEFAULT_PORT | Some x \<Rightarrow> x))"

definition wait_timeout :: "wait_options option \<Rightarrow> int" where
  "wait_timeout options =
     (case options of None \<Rightarrow> 30000
      | Some opts \<Rightarrow> (case wopt_timeout opts of None \<Rightarrow> 30000 | Some x \<Rightarrow> x))"

definition wait_pollInterval :: "wait_options option \<Rightarrow> nat" where
  "wait_pollInterval options =
     (case options of None \<Rightarrow> 500
      | Some opts \<Rightarrow> (case wopt_pollInterval opts of None \<Rightarrow> 500 | Some x \<Rightarrow> x))"

definition waitForExtension ::
  "env \<Rightarrow> wait_options option \<Rightarrow> world \<Rightarrow> (relay_error + WaitForExtensionResult) \<times> world"
where
  "waitForExtension e options w =
     (let p = wait_port options;
          timeout = wait_timeout options;
          pollInterval = wait_pollInterval options;
          startTime = clock w
      in wait_loop e p timeout pollInterval startTime w)"

section \<open>The relay's registry and the status endpoint (tasks/persistent-relay.md, Task 2)\<close>

record TargetInfo =
  url :: string
  title :: string

record ConnectedTarget =
  sessionId :: string
  targetId :: string
  targetInfo :: TargetInfo






section \<open>The cookie workaround in the command router (tasks/cdp-cookie-workaround.md)\<close>

subsection \<open>JavaScript values\<close>

datatype jsval =
    JUndefined
  | JNull
  | JBool bool
  | JNum int
  | JStr string
  | JArr "jsval list"
  | JObj "(string \<times> jsval) list"

fun truthy :: "jsval \<Rightarrow> bool" where
  "truthy JUndefined = False"
| "truthy JNull = False"
| "truthy (JBool b) = b"
| "truthy (JNum n) = (n \<noteq> 0)"
| "truthy (JStr s) = (s \<noteq> [])"
| "truthy (JArr xs) = True"
| "truthy (JObj kvs) = True"

text \<open>
  What is thrown: an \<^verbatim>\<open>Error\<close> object, with the CDP error code it carries if it carries
  one and its message, or the \<^verbatim>\<open>TypeError\<close> the engine raises. \<^verbatim>\<open>new Error(msg)\<close> is
  \<open>Error None msg\<close>.
\<close>

datatype thrown = Error "int option" string | TypeError

text \<open>
  \<^verbatim>\<open>v.k\<close> for the keys read here (\<^verbatim>\<open>cookies\<close>, \<^verbatim>\<open>name\<close>, \<^verbatim>\<open>domain\<close>, \<^verbatim>\<open>path\<close>)
  and named in the statements (\<^verbatim>\<open>partitionKey\<close>, \<^verbatim>\<open>urls\<close>), none of them a property
  that arrays or primitives have of their own: the field of an object, undefined when the
  object has no such field or the value is an array or a primitive, and a TypeError on
  undefined and null.
\<close>

fun get_prop :: "jsval \<Rightarrow> string \<Rightarrow> thrown + jsval" where
  "get_prop JUndefined k = Inl TypeError"
| "get_prop JNull k = Inl TypeError"
| "get_prop (JObj kvs) k = Inr (case map_of kvs k of None \<Rightarrow> JUndefined | Some v \<Rightarrow> v)"
| "get_prop v k = Inr JUndefined"

text \<open>\<^verbatim>\<open>v?.k\<close>: undefined on undefined and null, the property otherwise.\<close>

definition opt_prop :: "jsval \<Rightarrow> string \<Rightarrow> jsval" where
  "opt_prop v k = (case get_prop v k of Inl err \<Rightarrow> JUndefined | Inr x \<Rightarrow> x)"

text \<open>\<^verbatim>\<open>a || b\<close>.\<close>

definition js_or :: "jsval \<Rightarrow> jsval \<Rightarrow> jsval" where
  "js_or a b = (if truthy a then a else b)"

text \<open>
  What \<^verbatim>\<open>for (const x of v)\<close> iterates over: the elements of an array, the characters of
  a string; any other value here is not iterable.
\<close>

fun iterate :: "jsval \<Rightarrow> thrown + jsval list" where
  "iterate (JArr xs) = Inr xs"
| "iterate (JStr s) = Inr (map (\<lambda>c. JStr [c]) s)"
| "iterate v = Inl TypeError"

subsection \<open>The extension link\<close>

text \<open>
  A message handed to \<^verbatim>\<open>sendToExtension\<close>:
  \<^verbatim>\<open>{ method, params: { sessionId, method, params } }\<close>.
\<close>

record ext_message =
  ext_method :: string
  ext_sessionId :: string
  cdp_method :: string
  cdp_params :: jsval

text \<open>
  \<^verbatim>\<open>sendToExtension\<close> itself is in cdp-relay.ts, outside the sources; it is taken as a
  parameter: the extension's answer to a message, a result or a rejection, as a function
  of the messages sent before it and of the message. Every message handed over is
  recorded, in order.
\<close>

type_synonym extension = "ext_message list \<Rightarrow> ext_message \<Rightarrow> thrown + jsval"

definition sendToExtension ::
  "extension \<Rightarrow> ext_message \<Rightarrow> ext_message list \<Rightarrow> (thrown + jsval) \<times> ext_message list"
where
  "sendToExtension ext m sent = (ext sent m, sent @ [m])"

definition forwardCDPCommand :: "string \<Rightarrow> string \<Rightarrow> jsval \<Rightarrow> ext_message" where
  "forwardCDPCommand sid m ps =
     \<lparr>ext_method = ''forwardCDPCommand'', ext_sessionId = sid, cdp_method = m, cdp_params = ps\<rparr>"

subsection \<open>Choosing a session\<close>

text \<open>
  \<^verbatim>\<open>connectedTargets.values().next().value?.sessionId\<close>: the session id of the first entry
  of the map, undefined (\<open>None\<close>) when the map is empty.
\<close>

definition getAnyActiveSessionId :: "(string \<times> ConnectedTarget) list \<Rightarrow> string option" where
  "getAnyActiveSessionId targets =
     (case targets of [] \<Rightarrow> None | (k, firstTarget) # rest \<Rightarrow> Some (sessionId firstTarget))"

text \<open>A string or undefined is truthy when it is a non-empty string.\<close>

definition truthy_string :: "string option \<Rightarrow> bool" where
  "truthy_string s = (case s of None \<Rightarrow> False | Some x \<Rightarrow> x \<noteq> [])"

text \<open>\<^verbatim>\<open>const targetSessionId = sessionId || getAnyActiveSessionId()\<close>.\<close>

definition targetSessionId ::
  "string option \<Rightarrow> (string \<times> ConnectedTarget) list \<Rightarrow> string option"
where
  "targetSessionId sid targets =
     (if truthy_string sid then sid else getAnyActiveSessionId targets)"

text \<open>The message of the error thrown when no session id is found.\<close>

definition no_pages_message :: string where
  "no_pages_message =
     ''No pages available for cookie operation. Click the playwriter extension icon on a tab first.''"

text \<open>
  The variant of specs/features.md, \<^verbatim>\<open>getAnyActiveSession\<close>, which throws by itself; its
  \<^verbatim>\<open>activeSessions\<close> is the list of the session ids in insertion order.
\<close>

definition no_pages_message_features :: string where
  "no_pages_message_features =
     ''No pages available for cookie operation. Click the playwriter extension icon on a Chrome tab first.''"

definition getAnyActiveSession :: "'ws option \<Rightarrow> string list \<Rightarrow> thrown + string" where
  "getAnyActiveSession ws activeSessions =
     (if ws = None \<or> length activeSessions = 0
      then Inl (Error None no_pages_message_features)
      else Inr (hd activeSessions))"

subsection \<open>routeCdpCommand\<close>

record cdp_command =
  cmd_method :: string
  cmd_params :: jsval
  cmd_sessionId :: "string option"

text \<open>
  The argument of one \<^verbatim>\<open>Network.deleteCookies\<close>:
  \<^verbatim>\<open>{ name: cookie.name, domain: cookie.domain, path: cookie.path }\<close>. Reading a property
  of an element that is undefined or null throws before anything is sent.
\<close>

definition deleteCookies_params :: "jsval \<Rightarrow> thrown + jsval" where
  "deleteCookies_params cookie =
     (case get_prop cookie ''name'' of Inl err \<Rightarrow> Inl err | Inr n \<Rightarrow>
      (case get_prop cookie ''domain'' of Inl err \<Rightarrow> Inl err | Inr d \<Rightarrow>
       (case get_prop cookie ''path'' of Inl err \<Rightarrow> Inl err | Inr p \<Rightarrow>
          Inr (JObj [(''name'', n), (''domain'', d), (''path'', p)]))))"

text \<open>The \<^verbatim>\<open>for (const cookie of cookies)\<close> loop; an awaited rejection leaves the loop.\<close>

fun delete_each ::
  "extension \<Rightarrow> string \<Rightarrow> jsval list \<Rightarrow> ext_message list \<Rightarrow> (thrown + unit) \<times> ext_message list"
where
  "delete_each ext sid [] sent = (Inr (), sent)"
| "delete_each ext sid (cookie # rest) sent =
     (case deleteCookies_params cookie of
        Inl err \<Rightarrow> (Inl err, sent)
      | Inr ps \<Rightarrow>
          (case sendToExtension ext (forwardCDPCommand sid ''Network.deleteCookies'' ps) sent of
             (Inl err, sent') \<Rightarrow> (Inl err, sent')
           | (Inr r, sent') \<Rightarrow> delete_each ext sid rest sent'))"

text \<open>
  \<^verbatim>\<open>const cookies = result?.cookies || []\<close>, as the loop iterates over it.
\<close>

definition returned_cookies :: "jsval \<Rightarrow> thrown + jsval list" where
  "returned_cookies result = iterate (js_or (opt_prop result ''cookies'') (JArr []))"

definition clearCookies ::
  "extension \<Rightarrow> string \<Rightarrow> ext_message list \<Rightarrow> (thrown + jsval) \<times> ext_message list"
where
  "clearCookies ext sid sent =
     (case sendToExtension ext (forwardCDPCommand sid ''Network.getCookies'' (JObj [])) sent of
        (Inl err, sent1) \<Rightarrow> (Inl err, sent1)
      | (Inr result, sent1) \<Rightarrow>
          (case returned_cookies result of
             Inl err \<Rightarrow> (Inl err, sent1)
           | Inr cookies \<Rightarrow>
               (case delete_each ext sid cookies sent1 of
                  (Inl err, sent2) \<Rightarrow> (Inl err, sent2)
                | (Inr u, sent2) \<Rightarrow> (Inr (JObj []), sent2))))"

text \<open>
  The three cookie cases of the \<^verbatim>\<open>switch (method)\<close>. The other cases and the default of
  the function are not in the sources: \<open>other\<close> stands for them.
\<close>

definition routeCdpCommand ::
  "(cdp_command \<Rightarrow> ext_message list \<Rightarrow> (thrown + jsval) \<times> ext_message list) \<Rightarrow>
   extension \<Rightarrow> (string \<times> ConnectedTarget) list \<Rightarrow> cdp_command \<Rightarrow> ext_message list \<Rightarrow>
   (thrown + jsval) \<times> ext_message list"
where
  "routeCdpCommand other ext targets cmd sent =
     (if cmd_method cmd = ''Storage.getCookies'' then
        (case targetSessionId (cmd_sessionId cmd) targets of
           Some sid \<Rightarrow>
             if sid = [] then (Inl (Error None no_pages_message), sent)
             else sendToExtension ext (forwardCDPCommand sid ''Network.getCookies'' (JObj [])) sent
         | None \<Rightarrow> (Inl (Error None no_pages_message), sent))
      else if cmd_method cmd = ''Storage.setCookies'' then
        (case targetSessionId (cmd_sessionId cmd) targets of
           Some sid \<Rightarrow>
             if sid = [] then (Inl (Error None no_pages_message), sent)
             else sendToExtension ext
                    (forwardCDPCommand sid ''Network.setCookies''
                       (JObj [(''cookies'', js_or (opt_prop (cmd_params cmd) ''cookies'') (JArr []))]))
                    sent
         | None \<Rightarrow> (Inl (Error None no_pages_message), sent))
      else if cmd_method cmd = ''Storage.clearCookies'' then
        (case targetSessionId (cmd_sessionId cmd) targets of
           Some sid \<Rightarrow>
             if sid = [] then (Inl (Error None no_pages_message), sent)
             else clearCookies ext sid sent
         | None \<Rightarrow> (Inl (Error None no_pages_message), sent))
      else other cmd sent)"

subsection \<open>The reply to the client\<close>

record client_frame =
  frame_id :: int
  frame_command :: cdp_command

datatype reply_frame = Result_frame int jsval | Error_frame int int string

text \<open>
  Modelled from the spec: the step of the client link that wraps the outcome of
  \<^verbatim>\<open>routeCdpCommand\<close> into the frame sent back, which is in cdp-relay.ts and not in the
  sources. After sections 4.1, 4.3 and 7 of the specification: a result goes out as
  \<^verbatim>\<open>{id, result}\<close> under the id of the request; an error goes out as
  \<^verbatim>\<open>{id, error: {code, message}}\<close>, with the code of the underlying error when it has
  one and \<open>-32000\<close> when the router raised it itself.
\<close>

definition reply_to_client :: "int \<Rightarrow> thrown + jsval \<Rightarrow> reply_frame" where
  "reply_to_client rid outcome =
     (case outcome of
        Inr result \<Rightarrow> Result_frame rid result
      | Inl (Error (Some c) msg) \<Rightarrow> Error_frame rid c msg
      | Inl (Error None msg) \<Rightarrow> Error_frame rid (- 32000) msg
      | Inl TypeError \<Rightarrow> Error_frame rid (- 32000) ''TypeError'')"

text \<open>
  Modelled from the spec: the client link, which is in cdp-relay.ts and not in the
  sources, hands each command frame to the router and sends the wrapped outcome back to
  the client that sent the frame (section 4.5).
\<close>

definition handle_client_frame ::
  "(cdp_command \<Rightarrow> ext_message list \<Rightarrow> (thrown + jsval) \<times> ext_message list) \<Rightarrow>
   extension \<Rightarrow> (string \<times> ConnectedTarget) list \<Rightarrow> client_frame \<Rightarrow> ext_message list \<Rightarrow>
   reply_frame \<times> ext_message list"
where
  "handle_client_frame other ext targets frame sent =
     (case routeCdpCommand other ext targets (frame_command frame) sent of
        (outcome, sent') \<Rightarrow> (reply_to_client (frame_id frame) outcome, sent'))"

section \<open>Notions used in the statements\<close>

subsection \<open>Version strings\<close>

text \<open>\<open>k\<close> trailing \<open>.0\<close> components.\<close>

definition dot_zeros :: "nat \<Rightarrow> string" where
  "dot_zeros k = concat (replicate k ''.0'')"

subsection \<open>The rounds of the two polling loops\<close>

text \<open>The test at the head of both loops: \<^verbatim>\<open>Date.now() - startTime < timeout\<close>.\<close>

definition before_deadline :: "int \<Rightarrow> nat \<Rightarrow> world \<Rightarrow> bool" where
  "before_deadline timeout startTime w = (int (clock w) - int startTime < timeout)"

text \<open>
  One round of the loop of \<^verbatim>\<open>ensurePersistentRelay\<close> that does not return: the sleep of
  500 ms and the probe of \<^verbatim>\<open>/version\<close>. \<open>observes_expected\<close> says that the probe of the
  round that starts in \<open>w\<close> answers with exactly the expected version.
\<close>

definition poll_round :: "env \<Rightarrow> nat \<Rightarrow> world \<Rightarrow> world" where
  "poll_round e p w = perform e (Fetch_version p) (sleep e 500 w)"

definition observes_expected :: "env \<Rightarrow> nat \<Rightarrow> world \<Rightarrow> bool" where
  "observes_expected e p w = (version_endpoint e p (sleep e 500 w) = Response True (VERSION e))"

text \<open>
  The world right after the detached child has been spawned, when the first probe has not
  found a current server, and the world at the head of the polling loop after \<open>i\<close>
  rounds.
\<close>

definition world_after_spawn :: "env \<Rightarrow> ensure_options option \<Rightarrow> world \<Rightarrow> world" where
  "world_after_spawn e options w =
     (case getServerVersion e (ensure_port options) w of
        (None, w1) \<Rightarrow> perform e (Spawn_detached (development e)) w1
      | (Some ev, w1) \<Rightarrow>
          perform e (Spawn_detached (development e)) (kill_old_version e (ensure_port options) w1))"

definition poll_world :: "env \<Rightarrow> ensure_options option \<Rightarrow> world \<Rightarrow> nat \<Rightarrow> world" where
  "poll_world e options w i =
     (poll_round e (ensure_port options) ^^ i) (world_after_spawn e options w)"

text \<open>
  A poll answer with \<^verbatim>\<open>response.ok && status.connected && status.pageCount > 0\<close>, and
  the page count an answer carries.
\<close>

definition reports_ready :: "ExtensionStatus fetch_result \<Rightarrow> bool" where
  "reports_ready r =
     (case r of Fetch_throws \<Rightarrow> False
      | Response ok status \<Rightarrow> ok \<and> connected status \<and> pageCount status > 0)"

definition reported_pageCount :: "ExtensionStatus fetch_result \<Rightarrow> nat" where
  "reported_pageCount r = (case r of Fetch_throws \<Rightarrow> 0 | Response ok status \<Rightarrow> pageCount status)"

text \<open>
  One round of the loop of \<^verbatim>\<open>waitForExtension\<close> that does not return: the poll of
  \<^verbatim>\<open>/extension-status\<close> and the sleep of the poll interval; and the world at the head of
  the loop after \<open>i\<close> rounds.
\<close>

definition unready_round :: "env \<Rightarrow> nat \<Rightarrow> nat \<Rightarrow> world \<Rightarrow> world" where
  "unready_round e p pollInterval w = sleep e pollInterval (perform e (Fetch_extension_status p) w)"

definition wait_world :: "env \<Rightarrow> wait_options option \<Rightarrow> world \<Rightarrow> nat \<Rightarrow> world" where
  "wait_world e options w i =
     (unready_round e (wait_port options) (wait_pollInterval options) ^^ i) w"

subsection \<open>The registry and the sessions\<close>







subsection \<open>The cookie commands and their messages\<close>

text \<open>The three Storage cookie commands.\<close>

definition is_cookie_command :: "string \<Rightarrow> bool" where
  "is_cookie_command m =
     (m = ''Storage.getCookies'' \<or> m = ''Storage.setCookies'' \<or> m = ''Storage.clearCookies'')"

text \<open>An element whose properties can be read: neither undefined nor null.\<close>

definition present :: "jsval \<Rightarrow> bool" where
  "present v = (v \<noteq> JUndefined \<and> v \<noteq> JNull)"

text \<open>The two messages of the rewrite, as the extension receives them.\<close>

definition getCookies_message :: "string \<Rightarrow> ext_message" where
  "getCookies_message sid =
     \<lparr>ext_method = ''forwardCDPCommand'', ext_sessionId = sid,
      cdp_method = ''Network.getCookies'', cdp_params = JObj []\<rparr>"

definition deleteCookies_message :: "string \<Rightarrow> jsval \<Rightarrow> ext_message" where
  "deleteCookies_message sid cookie =
     \<lparr>ext_method = ''forwardCDPCommand'', ext_sessionId = sid,
      cdp_method = ''Network.deleteCookies'',
      cdp_params = JObj [(''name'', opt_prop cookie ''name''),
                         (''domain'', opt_prop cookie ''domain''),
                         (''path'', opt_prop cookie ''path'')]\<rparr>"

text \<open>A letter in lower case, to compare messages without regard to case.\<close>

definition to_lower :: "char \<Rightarrow> char" where
  "to_lower c =
     (let n = (of_char c :: nat) in if 65 \<le> n \<and> n \<le> 90 then char_of (n + 32) else c)"

section \<open>Concrete scenarios\<close>

text \<open>The world at the start: the clock at 0 and nothing done yet.\<close>

definition world0 :: world where
  "world0 = \<lparr>clock = 0, trace = []\<rparr>"

text \<open>A relay that is up and reports a fixed version, seen by a caller that expects another.\<close>

definition env_answering :: "string \<Rightarrow> string \<Rightarrow> env" where
  "env_answering expected reported =
     \<lparr>VERSION = expected, LOG_FILE_PATH = ''/tmp/playwriter/relay-server.log'', development = False,
      version_endpoint = (\<lambda>p w. Response True reported),
      status_endpoint = (\<lambda>p w. Fetch_throws),
      kill_succeeds = (\<lambda>p w. True),
      duration = (\<lambda>w. 2)\<rparr>"


text \<open>A relay whose extension connects, with one page, \<open>t\<close> milliseconds after the start.\<close>

definition env_extension_after :: "nat \<Rightarrow> env" where
  "env_extension_after t =
     \<lparr>VERSION = ''0.0.48'', LOG_FILE_PATH = ''/tmp/playwriter/relay-server.log'', development = False,
      version_endpoint = (\<lambda>p w. Response True ''0.0.48''),
      status_endpoint = (\<lambda>p w.
         if clock w < t then Response True \<lparr>connected = False, pageCount = 0, pages = []\<rparr>
         else Response True \<lparr>connected = True, pageCount = 1,
                pages = [\<lparr>page_targetId = ''T1'', page_url = ''https://example.com/'', page_title = ''Example''\<rparr>]\<rparr>),
      kill_succeeds = (\<lambda>p w. True),
      duration = (\<lambda>w. 2)\<rparr>"

text \<open>A stand-in for the cases of the router that are not cookie commands.\<close>

definition method_not_found ::
  "cdp_command \<Rightarrow> ext_message list \<Rightarrow> (thrown + jsval) \<times> ext_message list" where
  "method_not_found cmd sent = (Inl (Error (Some (- 32601)) ''Method not found''), sent)"

text \<open>A registry entry with the given session id and target id.\<close>

definition target_of :: "string \<Rightarrow> string \<Rightarrow> string \<times> ConnectedTarget" where
  "target_of sid tid =
     (tid, \<lparr>sessionId = sid, targetId = tid,
            targetInfo = \<lparr>url = ''https://example.com/'', title = ''Example''\<rparr>\<rparr>)"


text \<open>A browser-scope command: no \<^verbatim>\<open>sessionId\<close>, no \<^verbatim>\<open>params\<close>.\<close>

definition storage_command :: "string \<Rightarrow> cdp_command" where
  "storage_command m = \<lparr>cmd_method = m, cmd_params = JUndefined, cmd_sessionId = None\<rparr>"

text \<open>Three cookies, the third one partitioned.\<close>

definition cookie_s :: jsval where
  "cookie_s = JObj [(''name'', JStr ''s''), (''value'', JStr ''1''),
                    (''domain'', JStr ''example.com''), (''path'', JStr ''/'')]"

definition cookie_t :: jsval where
  "cookie_t = JObj [(''name'', JStr ''t''), (''value'', JStr ''2''),
                    (''domain'', JStr ''example.com''), (''path'', JStr ''/a'')]"

definition cookie_partitioned :: jsval where
  "cookie_partitioned =
     JObj [(''name'', JStr ''p''), (''value'', JStr ''3''),
           (''domain'', JStr ''example.com''), (''path'', JStr ''/''),
           (''partitionKey'', JObj [(''topLevelSite'', JStr ''https://example.com''),
                                    (''hasCrossSiteAncestor'', JBool False)])]"

text \<open>An extension that has no cookies and accepts every command.\<close>

definition ext_no_cookies :: extension where
  "ext_no_cookies sent m =
     (if cdp_method m = ''Network.getCookies'' then Inr (JObj [(''cookies'', JArr [])])
      else Inr (JObj []))"

text \<open>
  An extension that serves the given cookies and rejects the deletions selected by
  \<open>rejects\<close>: none of them, or those of the cookie named \<open>s\<close>.
\<close>

definition rejects_none :: "ext_message \<Rightarrow> bool" where
  "rejects_none m = False"

definition rejects_s :: "ext_message \<Rightarrow> bool" where
  "rejects_s m = (opt_prop (cdp_params m) ''name'' = JStr ''s'')"

definition ext_serving :: "jsval list \<Rightarrow> (ext_message \<Rightarrow> bool) \<Rightarrow> extension" where
  "ext_serving cookies rejects sent m =
     (if cdp_method m = ''Network.getCookies'' then Inr (JObj [(''cookies'', JArr cookies)])
      else if rejects m then Inl (Error (Some (- 32000)) ''Could not delete cookie'')
      else Inr (JObj []))"

declare compare_from.simps [simp del]
declare poll_until_ready.simps [simp del]
declare wait_loop.simps [simp del]
declare decimal_string.simps [simp del]

section \<open>Properties of the version comparison and the lifecycle supervisor\<close>

lemma compare_from_flip: "compare_from p2 p1 len i = - compare_from p1 p2 len i"
proof (induction p1 p2 len i rule: compare_from.induct)
  case (1 parts1 parts2 len i)
  show ?case
  proof (cases "i < len")
    case True
    show ?thesis
    proof (cases "part_or_zero parts1 i = part_or_zero parts2 i")
      case True
      with \<open>i < len\<close> "1" show ?thesis
        by (simp add: compare_from.simps [of parts1 parts2 len i] compare_from.simps [of parts2 parts1 len i])
    next
      case False
      with \<open>i < len\<close> show ?thesis
        by (simp add: compare_from.simps [of parts1 parts2 len i] compare_from.simps [of parts2 parts1 len i])
    qed
  next
    case False
    then show ?thesis
      by (simp add: compare_from.simps [of parts1 parts2 len i] compare_from.simps [of parts2 parts1 len i])
  qed
qed

lemma compareVersions_flip: "compareVersions b a = - compareVersions a b"
  by (simp add: compareVersions_def Let_def max.commute compare_from_flip [of "map Number_js (split_dot b)"])


lemma compare_from_same:
  "(\<And>j. part_or_zero p1 j = part_or_zero p2 j) \<Longrightarrow> compare_from p1 p2 len i = 0"
proof (induction p1 p2 len i rule: compare_from.induct)
  case (1 parts1 parts2 len i)
  then show ?case
    by (simp add: compare_from.simps [of parts1 parts2 len i])
qed

lemma split_dot_nonempty: "split_dot s \<noteq> []"
  by (induction s) (auto split: list.splits)

lemma split_dot_append: "split_dot (a @ CHR ''.'' # b) = split_dot a @ split_dot b"
  using split_dot_nonempty by (induction a) (auto split: list.splits)

lemma split_dot_zeros: "split_dot (a @ dot_zeros k) = split_dot a @ replicate k ''0''"
proof (induction k arbitrary: a)
  case 0 then show ?case by (simp add: dot_zeros_def)
next
  case (Suc k)
  have "a @ dot_zeros (Suc k) = (a @ ''.0'') @ dot_zeros k"
    by (simp add: dot_zeros_def)
  moreover have "split_dot (a @ ''.0'') = split_dot a @ [''0'']"
    using split_dot_append [of a "''0''"] by simp
  ultimately show ?case using Suc [of "a @ ''.0''"]
    by (simp add: replicate_append_same)
qed

lemma Number_js_zero: "Number_js ''0'' = Some 0"
  by (simp add: Number_js_def is_digit_def decimal_value_def digit_value_def)

lemma part_or_zero_padded:
  "part_or_zero (map Number_js (ps @ replicate k ''0'')) j = part_or_zero (map Number_js ps) j"
  by (auto simp: part_or_zero_def nth_append Number_js_zero)

lemma compareVersions_padded: "compareVersions (a @ dot_zeros k) a = 0"
  unfolding compareVersions_def Let_def split_dot_zeros
  by (rule compare_from_same) (rule part_or_zero_padded)

lemma compareVersions_padded': "compareVersions a (a @ dot_zeros k) = 0"
  using compareVersions_flip [of "a @ dot_zeros k" a] compareVersions_padded [of a k] by simp

lemma ensure_current:
  assumes "version_endpoint e (ensure_port options) w = Response True ev"
      and "compareVersions ev (VERSION e) \<ge> 0"
  shows "ensurePersistentRelay e options w =
           (Inr \<lparr>started = False, version = ev, result_port = ensure_port options\<rparr>,
            perform e (Fetch_version (ensure_port options)) w)"
  using assms by (simp add: ensurePersistentRelay_def getServerVersion_def Let_def)




lemma getServerVersion_Some:
  "fst (getServerVersion e p w) = Some v \<longleftrightarrow> version_endpoint e p w = Response True v"
  by (auto simp: getServerVersion_def split: fetch_result.splits)


lemma snd_getServerVersion: "snd (getServerVersion e p w) = perform e (Fetch_version p) w"
  by (simp add: getServerVersion_def split: fetch_result.splits)


lemma poll_observed:
  "before_deadline timeout startTime w \<Longrightarrow> observes_expected e p w \<Longrightarrow>
   poll_until_ready e p timeout startTime w =
     (Inr \<lparr>started = True, version = VERSION e, result_port = p\<rparr>, poll_round e p w)"
  using snd_getServerVersion [of e p "sleep e 500 w"] getServerVersion_Some [of e p "sleep e 500 w" "VERSION e"]
  by (cases "getServerVersion e p (sleep e 500 w)")
     (simp add: poll_until_ready.simps [of e p timeout startTime w] before_deadline_def
        observes_expected_def poll_round_def)



lemma poll_rounds_exist:
  "\<exists>n. (\<forall>i<n. before_deadline timeout startTime ((poll_round e p ^^ i) w)
             \<and> \<not> observes_expected e p ((poll_round e p ^^ i) w))
       \<and> (observes_expected e p ((poll_round e p ^^ n) w)
          \<or> \<not> before_deadline timeout startTime ((poll_round e p ^^ n) w))"
proof (induction e p timeout startTime w rule: poll_until_ready.induct)
  case (1 e p timeout startTime w)
  let ?r = "poll_round e p"
  let ?ok = "\<lambda>w. before_deadline timeout startTime w \<and> \<not> observes_expected e p w"
  show ?case
  proof (cases "?ok w")
    case False
    then have "(\<forall>i<0. ?ok ((?r ^^ i) w))
        \<and> (observes_expected e p ((?r ^^ 0) w) \<or> \<not> before_deadline timeout startTime ((?r ^^ 0) w))"
      by auto
    then show ?thesis by blast
  next
    case True
    then have bd: "int (clock w) - int startTime < timeout"
      by (simp add: before_deadline_def)
    obtain v where g: "(v, ?r w) = getServerVersion e p (sleep e 500 w)"
      using snd_getServerVersion [of e p "sleep e 500 w"]
      by (metis poll_round_def prod.collapse)
    have "v \<noteq> Some (VERSION e)"
      using True g getServerVersion_Some [of e p "sleep e 500 w" "VERSION e"]
      by (metis fst_conv observes_expected_def)
    from "1.IH" [OF bd g this]
    obtain n where n: "\<forall>i<n. ?ok ((?r ^^ i) (?r w))"
        "observes_expected e p ((?r ^^ n) (?r w))
          \<or> \<not> before_deadline timeout startTime ((?r ^^ n) (?r w))"
      by blast
    have "\<forall>i<Suc n. ?ok ((?r ^^ i) w)"
    proof (intro allI impI)
      fix i assume i: "i < Suc n"
      show "?ok ((?r ^^ i) w)"
      proof (cases i)
        case 0 with True show ?thesis by simp
      next
        case (Suc j)
        with i n(1) show ?thesis by (simp add: funpow_swap1)
      qed
    qed
    moreover from n(2) have "observes_expected e p ((?r ^^ Suc n) w)
          \<or> \<not> before_deadline timeout startTime ((?r ^^ Suc n) w)"
      by (simp add: funpow_swap1)
    ultimately show ?thesis by blast
  qed
qed




lemma ensurePersistentRelay_rounds_exist:
  "\<exists>n. (\<forall>i<n. before_deadline (ensure_timeout options)
                   (clock (world_after_spawn e options w)) (poll_world e options w i)
              \<and> \<not> observes_expected e (ensure_port options) (poll_world e options w i))
       \<and> (observes_expected e (ensure_port options) (poll_world e options w n)
          \<or> \<not> before_deadline (ensure_timeout options)
                 (clock (world_after_spawn e options w)) (poll_world e options w n))"
  unfolding poll_world_def by (rule poll_rounds_exist)










text \<open>
  Claim C10. On numeric version strings \<^verbatim>\<open>compareVersions\<close> pads missing components
  with zero: swapping the arguments flips the sign of the result, a version and the same
  version followed by any number of \<open>.0\<close> components compare equal, and hence a running
  server that reports one of the two while the other is expected is left alone:
  \<^verbatim>\<open>ensurePersistentRelay\<close> returns \<^verbatim>\<open>{started: false}\<close> after the probe.
\<close>

theorem compareVersions_pads_with_zero:
  assumes "numeric_version a" and "numeric_version b"
  shows "sgn (compareVersions a b) = - sgn (compareVersions b a)
         \<and> compareVersions (a @ dot_zeros k) a = 0
         \<and> compareVersions a (a @ dot_zeros k) = 0
         \<and> (version_endpoint e (ensure_port options) w = Response True (a @ dot_zeros k)
              \<and> VERSION e = a
            \<longrightarrow> ensurePersistentRelay e options w =
                  (Inr \<lparr>started = False, version = a @ dot_zeros k, result_port = ensure_port options\<rparr>,
                   perform e (Fetch_version (ensure_port options)) w))
         \<and> (version_endpoint e (ensure_port options) w = Response True a
              \<and> VERSION e = a @ dot_zeros k
            \<longrightarrow> ensurePersistentRelay e options w =
                  (Inr \<lparr>started = False, version = a, result_port = ensure_port options\<rparr>,
                   perform e (Fetch_version (ensure_port options)) w))"
  using compareVersions_flip [of b a] compareVersions_padded [of a k] compareVersions_padded' [of a k]
  by (auto simp: ensure_current)

text \<open>
  The statement of C10 at \<open>1.2\<close>, \<open>1.10.0\<close> and one trailing \<open>.0\<close>: a relay reporting
  \<open>1.2.0\<close> to a caller that expects \<open>1.2\<close>, and a relay reporting \<open>1.2\<close> to a caller
  that expects \<open>1.2.0\<close>.
\<close>

theorem compareVersions_pads_with_zero_witness:
  "numeric_version ''1.2'' \<and> numeric_version ''1.10.0''
   \<and> sgn (compareVersions ''1.2'' ''1.10.0'') = - sgn (compareVersions ''1.10.0'' ''1.2'')
   \<and> compareVersions ''1.2.0'' ''1.2'' = 0
   \<and> compareVersions ''1.2'' ''1.2.0'' = 0
   \<and> ensurePersistentRelay (env_answering ''1.2'' ''1.2.0'') None world0 =
        (Inr \<lparr>started = False, version = ''1.2.0'', result_port = 19988\<rparr>,
         \<lparr>clock = 2, trace = [Fetch_version 19988]\<rparr>)
   \<and> ensurePersistentRelay (env_answering ''1.2.0'' ''1.2'') None world0 =
        (Inr \<lparr>started = False, version = ''1.2'', result_port = 19988\<rparr>,
         \<lparr>clock = 2, trace = [Fetch_version 19988]\<rparr>)"
proof -
  have a: "numeric_version ''1.2''"
    by (simp add: numeric_version_def is_digit_def)
  have b: "numeric_version ''1.10.0''"
    by (simp add: numeric_version_def is_digit_def)
  note older = compareVersions_pads_with_zero
    [OF a b, of 1 "env_answering ''1.2'' ''1.2.0''" None world0]
  note newer = compareVersions_pads_with_zero
    [OF a b, of 1 "env_answering ''1.2.0'' ''1.2''" None world0]
  have "ensurePersistentRelay (env_answering ''1.2.0'' ''1.2'') None world0 =
        (Inr \<lparr>started = False, version = ''1.2'', result_port = 19988\<rparr>,
         \<lparr>clock = 2, trace = [Fetch_version 19988]\<rparr>)"
    using newer
    by (simp add: dot_zeros_def env_answering_def ensure_port_def DEFAULT_PORT_def world0_def
        perform_def)
  then show ?thesis
    using a b older
    by (simp add: dot_zeros_def env_answering_def ensure_port_def DEFAULT_PORT_def world0_def
        perform_def)
qed

section \<open>Properties of the wait utility\<close>

lemma poll_status_ready:
  "reports_ready (status_endpoint e p w) \<Longrightarrow>
   poll_status e p w =
     (Some \<lparr>wf_connected = True, wf_pageCount = reported_pageCount (status_endpoint e p w)\<rparr>,
      perform e (Fetch_extension_status p) w)"
  by (auto simp: poll_status_def reports_ready_def reported_pageCount_def split: fetch_result.splits)

lemma poll_status_unready:
  "\<not> reports_ready (status_endpoint e p w) \<Longrightarrow>
   poll_status e p w = (None, perform e (Fetch_extension_status p) w)"
  by (auto simp: poll_status_def reports_ready_def split: fetch_result.splits)

lemma wait_loop_unready:
  "before_deadline timeout startTime w \<Longrightarrow> \<not> reports_ready (status_endpoint e p w) \<Longrightarrow>
   wait_loop e p timeout pollInterval startTime w =
     wait_loop e p timeout pollInterval startTime (unready_round e p pollInterval w)"
  by (simp add: wait_loop.simps [of e p timeout pollInterval startTime w]
        before_deadline_def poll_status_unready unready_round_def)

lemma wait_loop_ready:
  "before_deadline timeout startTime w \<Longrightarrow> reports_ready (status_endpoint e p w) \<Longrightarrow>
   wait_loop e p timeout pollInterval startTime w =
     (Inr \<lparr>wf_connected = True, wf_pageCount = reported_pageCount (status_endpoint e p w)\<rparr>,
      perform e (Fetch_extension_status p) w)"
  by (simp add: wait_loop.simps [of e p timeout pollInterval startTime w]
        before_deadline_def poll_status_ready)

lemma wait_loop_deadline:
  "\<not> before_deadline timeout startTime w \<Longrightarrow>
   wait_loop e p timeout pollInterval startTime w = (Inl (ExtensionNotConnectedError p), w)"
  by (simp add: wait_loop.simps [of e p timeout pollInterval startTime w] before_deadline_def)

lemma wait_loop_rounds:
  "\<forall>i<n. before_deadline timeout startTime ((unready_round e p pollInterval ^^ i) w)
          \<and> \<not> reports_ready (status_endpoint e p ((unready_round e p pollInterval ^^ i) w)) \<Longrightarrow>
   wait_loop e p timeout pollInterval startTime w =
     wait_loop e p timeout pollInterval startTime ((unready_round e p pollInterval ^^ n) w)"
proof (induction n arbitrary: w)
  case 0
  show ?case by simp
next
  case (Suc n)
  let ?r = "unready_round e p pollInterval"
  from Suc.prems have first: "before_deadline timeout startTime w"
      "\<not> reports_ready (status_endpoint e p w)"
    by force+
  have "\<forall>i<n. before_deadline timeout startTime ((?r ^^ i) (?r w))
          \<and> \<not> reports_ready (status_endpoint e p ((?r ^^ i) (?r w)))"
  proof (intro allI impI)
    fix i assume "i < n"
    then have "Suc i < Suc n" by simp
    with Suc.prems show "before_deadline timeout startTime ((?r ^^ i) (?r w))
          \<and> \<not> reports_ready (status_endpoint e p ((?r ^^ i) (?r w)))"
      by (metis funpow_swap1 funpow.simps(2) comp_apply)
  qed
  from Suc.IH [OF this] wait_loop_unready [OF first]
  show ?case by (simp add: funpow_swap1)
qed

lemma message_has_port: "sublist (decimal_string p) (message (ExtensionNotConnectedError p))"
  unfolding ExtensionNotConnectedError_def RelayServerError_def sublist_def
  by (intro exI [of _ "''[Playwriter] Extension not connected. Please click the Playwriter extension icon on a Chrome tab. (port ''"] exI [of _ "'')''"]) simp

lemma wait_rounds_exist:
  "\<exists>n. (\<forall>i<n. before_deadline timeout startTime ((unready_round e p pollInterval ^^ i) w)
             \<and> \<not> reports_ready (status_endpoint e p ((unready_round e p pollInterval ^^ i) w)))
       \<and> (reports_ready (status_endpoint e p ((unready_round e p pollInterval ^^ n) w))
          \<or> \<not> before_deadline timeout startTime ((unready_round e p pollInterval ^^ n) w))"
proof (induction e p timeout pollInterval startTime w rule: wait_loop.induct)
  case (1 e p timeout pollInterval startTime w)
  let ?r = "unready_round e p pollInterval"
  let ?ok = "\<lambda>w. before_deadline timeout startTime w \<and> \<not> reports_ready (status_endpoint e p w)"
  show ?case
  proof (cases "?ok w")
    case False
    then have "(\<forall>i<0. ?ok ((?r ^^ i) w))
        \<and> (reports_ready (status_endpoint e p ((?r ^^ 0) w))
            \<or> \<not> before_deadline timeout startTime ((?r ^^ 0) w))"
      by auto
    then show ?thesis by blast
  next
    case True
    then have bd: "int (clock w) - int startTime < timeout"
      and ps: "(None, perform e (Fetch_extension_status p) w) = poll_status e p w"
      by (simp_all add: before_deadline_def poll_status_unready)
    from "1.IH" [OF bd ps refl]
    obtain n where n: "\<forall>i<n. ?ok ((?r ^^ i) (?r w))"
        "reports_ready (status_endpoint e p ((?r ^^ n) (?r w)))
          \<or> \<not> before_deadline timeout startTime ((?r ^^ n) (?r w))"
      unfolding unready_round_def by blast
    have "\<forall>i<Suc n. ?ok ((?r ^^ i) w)"
    proof (intro allI impI)
      fix i assume i: "i < Suc n"
      show "?ok ((?r ^^ i) w)"
      proof (cases i)
        case 0 with True show ?thesis by simp
      next
        case (Suc j)
        with i n(1) show ?thesis by (simp add: funpow_swap1)
      qed
    qed
    moreover from n(2) have "reports_ready (status_endpoint e p ((?r ^^ Suc n) w))
          \<or> \<not> before_deadline timeout startTime ((?r ^^ Suc n) w)"
      by (simp add: funpow_swap1)
    ultimately show ?thesis by blast
  qed
qed

lemma waitForExtension_rounds_exist:
  "\<exists>n. (\<forall>i<n. before_deadline (wait_timeout options) (clock w) (wait_world e options w i)
             \<and> \<not> reports_ready (status_endpoint e (wait_port options) (wait_world e options w i)))
       \<and> (reports_ready (status_endpoint e (wait_port options) (wait_world e options w n))
          \<or> \<not> before_deadline (wait_timeout options) (clock w) (wait_world e options w n))"
  unfolding wait_world_def by (rule wait_rounds_exist)

text \<open>
  Claim C8. Write \<open>wait_world e options w i\<close> for the world at the head of the loop
  after \<open>i\<close> rounds of an unready poll of \<^verbatim>\<open>/extension-status\<close> followed by a sleep of
  the poll interval. If the first \<open>n\<close> polls are made before the deadline and none of
  them reports \<^verbatim>\<open>connected && pageCount > 0\<close>, then: when the next poll is made before
  the deadline and reports it, \<^verbatim>\<open>waitForExtension\<close> returns \<^verbatim>\<open>{connected: true, pageCount}\<close>
  right after that poll, with no further sleep; when instead the deadline has passed at
  the head of the loop, it throws \<^verbatim>\<open>ExtensionNotConnectedError\<close>, whose \<^verbatim>\<open>port\<close> field is
  the port and whose message contains the port in decimal. The poll interval is the
  option \<^verbatim>\<open>pollInterval\<close> and is 500 ms when the option is absent. By
  \<open>waitForExtension_rounds_exist\<close> every call has such an \<open>n\<close>, so every call ends in one
  of the two ways.
\<close>

theorem waitForExtension_outcome:
  assumes rounds:
    "\<forall>i<n. before_deadline (wait_timeout options) (clock w) (wait_world e options w i)
           \<and> \<not> reports_ready (status_endpoint e (wait_port options) (wait_world e options w i))"
  and last:
    "reports_ready (status_endpoint e (wait_port options) (wait_world e options w n))
     \<or> \<not> before_deadline (wait_timeout options) (clock w) (wait_world e options w n)"
  shows
    "waitForExtension e options w =
       (if before_deadline (wait_timeout options) (clock w) (wait_world e options w n)
        then (Inr \<lparr>wf_connected = True,
                   wf_pageCount = reported_pageCount
                     (status_endpoint e (wait_port options) (wait_world e options w n))\<rparr>,
              perform e (Fetch_extension_status (wait_port options)) (wait_world e options w n))
        else (Inl (ExtensionNotConnectedError (wait_port options)), wait_world e options w n))
     \<and> name (ExtensionNotConnectedError (wait_port options)) = ''ExtensionNotConnectedError''
     \<and> port (ExtensionNotConnectedError (wait_port options)) = wait_port options
     \<and> sublist (decimal_string (wait_port options))
          (message (ExtensionNotConnectedError (wait_port options)))
     \<and> wait_pollInterval None = 500
     \<and> wait_pollInterval (Some \<lparr>wopt_port = a, wopt_timeout = b, wopt_pollInterval = None\<rparr>) = 500
     \<and> wait_pollInterval (Some \<lparr>wopt_port = a, wopt_timeout = b, wopt_pollInterval = Some ms\<rparr>) = ms"
proof -
  let ?p = "wait_port options" and ?t = "wait_timeout options" and ?i = "wait_pollInterval options"
  let ?wn = "wait_world e options w n"
  have "waitForExtension e options w = wait_loop e ?p ?t ?i (clock w) w"
    by (simp add: waitForExtension_def Let_def)
  also have "\<dots> = wait_loop e ?p ?t ?i (clock w) ?wn"
    unfolding wait_world_def
    by (rule wait_loop_rounds) (use rounds in \<open>simp add: wait_world_def\<close>)
  also have "\<dots> =
       (if before_deadline ?t (clock w) ?wn
        then (Inr \<lparr>wf_connected = True,
                   wf_pageCount = reported_pageCount (status_endpoint e ?p ?wn)\<rparr>,
              perform e (Fetch_extension_status ?p) ?wn)
        else (Inl (ExtensionNotConnectedError ?p), ?wn))"
    using last by (auto simp: wait_loop_ready wait_loop_deadline)
  finally have main: "waitForExtension e options w =
       (if before_deadline ?t (clock w) ?wn
        then (Inr \<lparr>wf_connected = True,
                   wf_pageCount = reported_pageCount (status_endpoint e ?p ?wn)\<rparr>,
              perform e (Fetch_extension_status ?p) ?wn)
        else (Inl (ExtensionNotConnectedError ?p), ?wn))" .
  have "port (ExtensionNotConnectedError ?p) = ?p"
    and "name (ExtensionNotConnectedError ?p) = ''ExtensionNotConnectedError''"
    by (simp_all add: ExtensionNotConnectedError_def RelayServerError_def)
  with main message_has_port [of ?p] show ?thesis
    by (simp add: wait_pollInterval_def)
qed

lemma wait_world_0: "wait_world e options w 0 = w"
  by (simp add: wait_world_def)

lemma wait_world_Suc:
  "wait_world e options w (Suc i) =
     unready_round e (wait_port options) (wait_pollInterval options) (wait_world e options w i)"
  by (simp add: wait_world_def)

lemma env_extension_after_fields:
  "status_endpoint (env_extension_after t) p w =
     (if clock w < t then Response True \<lparr>connected = False, pageCount = 0, pages = []\<rparr>
      else Response True \<lparr>connected = True, pageCount = 1,
             pages = [\<lparr>page_targetId = ''T1'', page_url = ''https://example.com/'', page_title = ''Example''\<rparr>]\<rparr>)"
  "duration (env_extension_after t) w = 2"
  by (simp_all add: env_extension_after_def)

lemma unready_round_world:
  "unready_round e p ms \<lparr>clock = c, trace = tr\<rparr> =
     \<lparr>clock = c + duration e \<lparr>clock = c, trace = tr @ [Fetch_extension_status p]\<rparr> + max 1 ms
              + duration e \<lparr>clock = c + duration e \<lparr>clock = c, trace = tr @ [Fetch_extension_status p]\<rparr> + max 1 ms,
                           trace = tr @ [Fetch_extension_status p, Sleep ms]\<rparr>,
      trace = tr @ [Fetch_extension_status p, Sleep ms]\<rparr>"
  by (simp add: unready_round_def sleep_def perform_def Let_def)

text \<open>
  The statement of C8 at two calls: the extension connects 600 ms after the first call,
  which returns at its third poll; the second call gives up after its 300 ms deadline.
\<close>

theorem waitForExtension_outcome_witness:
  "waitForExtension (env_extension_after 600) None world0 =
     (Inr \<lparr>wf_connected = True, wf_pageCount = 1\<rparr>,
      \<lparr>clock = 1010,
       trace = [Fetch_extension_status 19988, Sleep 500, Fetch_extension_status 19988,
                Sleep 500, Fetch_extension_status 19988]\<rparr>)
   \<and> waitForExtension (env_extension_after 600)
        (Some \<lparr>wopt_port = Some 4000, wopt_timeout = Some 300, wopt_pollInterval = Some 200\<rparr>) world0 =
     (Inl \<lparr>name = ''ExtensionNotConnectedError'',
           message = ''[Playwriter] Extension not connected. Please click the Playwriter extension icon on a Chrome tab. (port 4000)'',
           port = 4000\<rparr>,
      \<lparr>clock = 408,
       trace = [Fetch_extension_status 4000, Sleep 200, Fetch_extension_status 4000, Sleep 200]\<rparr>)"
proof -
  let ?e = "env_extension_after 600"
  let ?o = "Some \<lparr>wopt_port = Some 4000, wopt_timeout = Some 300, wopt_pollInterval = Some 200\<rparr>"
  note defaults = wait_port_def wait_pollInterval_def wait_timeout_def DEFAULT_PORT_def
  have c0: "clock world0 = 0" by (simp add: world0_def)
  have w0: "wait_world ?e None world0 0 = \<lparr>clock = 0, trace = []\<rparr>"
    by (simp add: wait_world_0 world0_def)
  have w1: "wait_world ?e None world0 (Suc 0) =
      \<lparr>clock = 504, trace = [Fetch_extension_status 19988, Sleep 500]\<rparr>"
    by (simp add: wait_world_Suc w0 unready_round_world env_extension_after_fields defaults)
  have w2: "wait_world ?e None world0 2 =
      \<lparr>clock = 1008, trace = [Fetch_extension_status 19988, Sleep 500,
                              Fetch_extension_status 19988, Sleep 500]\<rparr>"
    by (simp add: numeral_2_eq_2 wait_world_Suc w0 unready_round_world env_extension_after_fields defaults)
  have r1: "\<forall>i<2. before_deadline (wait_timeout None) (clock world0) (wait_world ?e None world0 i)
           \<and> \<not> reports_ready (status_endpoint ?e (wait_port None) (wait_world ?e None world0 i))"
    by (simp add: less_2_cases_iff w0 w1 before_deadline_def reports_ready_def c0
        env_extension_after_fields defaults)
  have l1: "reports_ready (status_endpoint ?e (wait_port None) (wait_world ?e None world0 2))
     \<or> \<not> before_deadline (wait_timeout None) (clock world0) (wait_world ?e None world0 2)"
    by (simp add: w2 reports_ready_def env_extension_after_fields)
  have v0: "wait_world ?e ?o world0 0 = \<lparr>clock = 0, trace = []\<rparr>"
    by (simp add: wait_world_0 world0_def)
  have v1: "wait_world ?e ?o world0 (Suc 0) =
      \<lparr>clock = 204, trace = [Fetch_extension_status 4000, Sleep 200]\<rparr>"
    by (simp add: wait_world_Suc v0 unready_round_world env_extension_after_fields defaults)
  have v2: "wait_world ?e ?o world0 2 =
      \<lparr>clock = 408, trace = [Fetch_extension_status 4000, Sleep 200,
                             Fetch_extension_status 4000, Sleep 200]\<rparr>"
    by (simp add: numeral_2_eq_2 wait_world_Suc v0 unready_round_world env_extension_after_fields defaults)
  have r2: "\<forall>i<2. before_deadline (wait_timeout ?o) (clock world0) (wait_world ?e ?o world0 i)
           \<and> \<not> reports_ready (status_endpoint ?e (wait_port ?o) (wait_world ?e ?o world0 i))"
    by (simp add: less_2_cases_iff v0 v1 before_deadline_def reports_ready_def c0
        env_extension_after_fields defaults)
  have l2: "reports_ready (status_endpoint ?e (wait_port ?o) (wait_world ?e ?o world0 2))
     \<or> \<not> before_deadline (wait_timeout ?o) (clock world0) (wait_world ?e ?o world0 2)"
    by (simp add: v2 before_deadline_def c0 defaults)
  have d: "decimal_string 4000 = ''4000''" by (simp add: decimal_string.simps)
  have A: "waitForExtension ?e None world0 =
     (Inr \<lparr>wf_connected = True, wf_pageCount = 1\<rparr>,
      \<lparr>clock = 1010,
       trace = [Fetch_extension_status 19988, Sleep 500, Fetch_extension_status 19988,
                Sleep 500, Fetch_extension_status 19988]\<rparr>)"
    using waitForExtension_outcome [OF r1 l1]
    by (simp add: w2 before_deadline_def c0 reported_pageCount_def
        env_extension_after_fields perform_def defaults)
  have B: "waitForExtension ?e ?o world0 =
     (Inl \<lparr>name = ''ExtensionNotConnectedError'',
           message = ''[Playwriter] Extension not connected. Please click the Playwriter extension icon on a Chrome tab. (port 4000)'',
           port = 4000\<rparr>,
      \<lparr>clock = 408,
       trace = [Fetch_extension_status 4000, Sleep 200, Fetch_extension_status 4000, Sleep 200]\<rparr>)"
    using waitForExtension_outcome [OF r2 l2] d
    by (simp add: v2 before_deadline_def c0 defaults
        ExtensionNotConnectedError_def RelayServerError_def)
  from A B show ?thesis by simp
qed

section \<open>Properties of the status endpoint\<close>




section \<open>Properties of the cookie workaround\<close>

subsection \<open>The steps of the rewrite\<close>

lemma route_no_session:
  assumes "is_cookie_command (cmd_method cmd)"
      and "\<not> truthy_string (targetSessionId (cmd_sessionId cmd) targets)"
  shows "routeCdpCommand other ext targets cmd sent = (Inl (Error None no_pages_message), sent)"
  using assms
  by (auto simp: routeCdpCommand_def is_cookie_command_def truthy_string_def split: option.splits)


lemma get_prop_present: "present v \<Longrightarrow> get_prop v k = Inr (opt_prop v k)"
  by (cases v) (simp_all add: present_def opt_prop_def)

lemma delete_each_step:
  "present c \<Longrightarrow>
   delete_each ext sid (c # cs) sent =
     (case ext sent (deleteCookies_message sid c) of
        Inl err \<Rightarrow> (Inl err, sent @ [deleteCookies_message sid c])
      | Inr r \<Rightarrow> delete_each ext sid cs (sent @ [deleteCookies_message sid c]))"
  by (simp add: deleteCookies_params_def get_prop_present sendToExtension_def
      forwardCDPCommand_def deleteCookies_message_def split: sum.splits)

lemma delete_each_all_resolve:
  "list_all present cs \<Longrightarrow>
   (\<forall>i<length cs. \<not> isl (ext (sent @ map (deleteCookies_message sid) (take i cs))
                              (deleteCookies_message sid (cs ! i)))) \<Longrightarrow>
   delete_each ext sid cs sent = (Inr (), sent @ map (deleteCookies_message sid) cs)"
proof (induction cs arbitrary: sent)
  case Nil
  show ?case by simp
next
  case (Cons c cs)
  let ?d = "deleteCookies_message sid"
  from Cons.prems(1) have pc: "present c" and pcs: "list_all present cs" by simp_all
  from Cons.prems(2) have "\<not> isl (ext (sent @ map ?d (take 0 (c # cs))) (?d ((c # cs) ! 0)))"
    by blast
  then obtain r where r: "ext sent (?d c) = Inr r"
    by (cases "ext sent (?d c)") simp_all
  have "\<forall>i<length cs. \<not> isl (ext ((sent @ [?d c]) @ map ?d (take i cs)) (?d (cs ! i)))"
  proof (intro allI impI)
    fix i assume "i < length cs"
    then have "Suc i < length (c # cs)" by simp
    with Cons.prems(2)
    have "\<not> isl (ext (sent @ map ?d (take (Suc i) (c # cs))) (?d ((c # cs) ! Suc i)))"
      by blast
    then show "\<not> isl (ext ((sent @ [?d c]) @ map ?d (take i cs)) (?d (cs ! i)))"
      by simp
  qed
  from Cons.IH [OF pcs this] r pc show ?case
    by (simp add: delete_each_step del: delete_each.simps)
qed

lemma delete_each_rejected:
  "list_all present pre \<Longrightarrow> present c \<Longrightarrow>
   (\<forall>i<length pre. \<not> isl (ext (sent @ map (deleteCookies_message sid) (take i pre))
                               (deleteCookies_message sid (pre ! i)))) \<Longrightarrow>
   ext (sent @ map (deleteCookies_message sid) pre) (deleteCookies_message sid c) = Inl err \<Longrightarrow>
   delete_each ext sid (pre @ c # post) sent =
     (Inl err, sent @ map (deleteCookies_message sid) pre @ [deleteCookies_message sid c])"
proof (induction pre arbitrary: sent)
  case Nil
  then show ?case by (simp add: delete_each_step del: delete_each.simps)
next
  case (Cons p pre)
  let ?d = "deleteCookies_message sid"
  from Cons.prems(1) have pp: "present p" and ppre: "list_all present pre" by simp_all
  from Cons.prems(3) have "\<not> isl (ext (sent @ map ?d (take 0 (p # pre))) (?d ((p # pre) ! 0)))"
    by blast
  then obtain r where r: "ext sent (?d p) = Inr r"
    by (cases "ext sent (?d p)") simp_all
  have ok: "\<forall>i<length pre. \<not> isl (ext ((sent @ [?d p]) @ map ?d (take i pre)) (?d (pre ! i)))"
  proof (intro allI impI)
    fix i assume "i < length pre"
    then have "Suc i < length (p # pre)" by simp
    with Cons.prems(3)
    have "\<not> isl (ext (sent @ map ?d (take (Suc i) (p # pre))) (?d ((p # pre) ! Suc i)))"
      by blast
    then show "\<not> isl (ext ((sent @ [?d p]) @ map ?d (take i pre)) (?d (pre ! i)))"
      by simp
  qed
  from Cons.prems(4) have "ext ((sent @ [?d p]) @ map ?d pre) (?d c) = Inl err" by simp
  from Cons.IH [OF ppre Cons.prems(2) ok this] r pp show ?case
    by (simp add: delete_each_step del: delete_each.simps)
qed

lemma getCookies_message_eq:
  "forwardCDPCommand sid ''Network.getCookies'' (JObj []) = getCookies_message sid"
  by (simp add: forwardCDPCommand_def getCookies_message_def)

lemma route_clearCookies:
  assumes "cmd_method cmd = ''Storage.clearCookies''"
      and "targetSessionId (cmd_sessionId cmd) targets = Some sid"
      and "sid \<noteq> []"
      and "ext sent (getCookies_message sid) = Inr result"
      and "returned_cookies result = Inr cookies"
  shows "routeCdpCommand other ext targets cmd sent =
           (case delete_each ext sid cookies (sent @ [getCookies_message sid]) of
              (Inl err, sent2) \<Rightarrow> (Inl err, sent2)
            | (Inr u, sent2) \<Rightarrow> (Inr (JObj []), sent2))"
  using assms
  by (simp add: routeCdpCommand_def clearCookies_def sendToExtension_def getCookies_message_eq)

subsection \<open>The scenarios\<close>

lemma scenario_session:
  "targetSessionId (cmd_sessionId (storage_command m)) [target_of ''S1'' ''T1''] = Some ''S1''"
  by (simp add: targetSessionId_def storage_command_def truthy_string_def getAnyActiveSessionId_def
      target_of_def)

lemma scenario_method: "cmd_method (storage_command m) = m"
  by (simp add: storage_command_def)

lemma ext_serving_getCookies:
  "ext_serving cookies rejects sent (getCookies_message sid) = Inr (JObj [(''cookies'', JArr cookies)])"
  by (simp add: ext_serving_def getCookies_message_def)

lemma ext_serving_deleteCookies:
  "ext_serving cookies rejects sent (deleteCookies_message sid c) =
     (if rejects (deleteCookies_message sid c)
      then Inl (Error (Some (- 32000)) ''Could not delete cookie'') else Inr (JObj []))"
  by (simp add: ext_serving_def deleteCookies_message_def)

lemma returned_cookies_array:
  "returned_cookies (JObj [(''cookies'', JArr cookies)]) = Inr cookies"
  by (simp add: returned_cookies_def opt_prop_def js_or_def)

lemma scenario_rejects:
  "rejects_s (deleteCookies_message sid cookie_s)"
  "\<not> rejects_s (deleteCookies_message sid cookie_t)"
  "\<not> rejects_s (deleteCookies_message sid cookie_partitioned)"
  by (simp_all add: rejects_s_def deleteCookies_message_def opt_prop_def cookie_s_def cookie_t_def
      cookie_partitioned_def)

lemma scenario_present:
  "present cookie_s" "present cookie_t" "present cookie_partitioned"
  by (simp_all add: present_def cookie_s_def cookie_t_def cookie_partitioned_def)

subsection \<open>Clearing the cookies\<close>

text \<open>
  Claim C1, as amended. For a \<^verbatim>\<open>Storage.clearCookies\<close> command handled while a session
  is available, when the \<^verbatim>\<open>Network.getCookies\<close> request and every deletion succeed, the
  messages sent are exactly one \<^verbatim>\<open>Network.getCookies\<close> followed by one
  \<^verbatim>\<open>Network.deleteCookies\<close> per returned cookie, in the order of the returned list, each
  carrying that cookie's name, domain and path and no partition key, and the result is the
  empty object. The number of messages is one more than the number of cookies: with no
  cookie, the one \<^verbatim>\<open>Network.getCookies\<close> is all that is sent.
\<close>

theorem clearCookies_fan_out:
  assumes "cmd_method cmd = ''Storage.clearCookies''"
      and "targetSessionId (cmd_sessionId cmd) targets = Some sid"
      and "sid \<noteq> []"
      and "ext sent (getCookies_message sid) = Inr result"
      and "returned_cookies result = Inr cookies"
      and "list_all present cookies"
      and "\<forall>i<length cookies.
             \<not> isl (ext (sent @ getCookies_message sid # map (deleteCookies_message sid) (take i cookies))
                        (deleteCookies_message sid (cookies ! i)))"
  shows "routeCdpCommand other ext targets cmd sent =
           (Inr (JObj []),
            sent @ getCookies_message sid # map (deleteCookies_message sid) cookies)
         \<and> length (snd (routeCdpCommand other ext targets cmd sent)) =
             length sent + 1 + length cookies
         \<and> (cookies = [] \<longrightarrow>
              snd (routeCdpCommand other ext targets cmd sent) = sent @ [getCookies_message sid])
         \<and> list_all (\<lambda>c. cdp_params (deleteCookies_message sid c) =
                             JObj [(''name'', opt_prop c ''name''),
                                   (''domain'', opt_prop c ''domain''),
                                   (''path'', opt_prop c ''path'')]
                           \<and> opt_prop (cdp_params (deleteCookies_message sid c)) ''partitionKey''
                               = JUndefined) cookies"
proof -
  let ?g = "getCookies_message sid" and ?d = "deleteCookies_message sid"
  have "\<forall>i<length cookies.
          \<not> isl (ext ((sent @ [?g]) @ map ?d (take i cookies)) (?d (cookies ! i)))"
    using assms(7) by simp
  with assms(6) have "delete_each ext sid cookies (sent @ [?g]) = (Inr (), (sent @ [?g]) @ map ?d cookies)"
    by (rule delete_each_all_resolve)
  with route_clearCookies [where ext = ext and sent = sent and other = other, OF assms(1-5)]
  have r: "routeCdpCommand other ext targets cmd sent = (Inr (JObj []), sent @ ?g # map ?d cookies)"
    by simp
  have "list_all (\<lambda>c. cdp_params (?d c) =
                             JObj [(''name'', opt_prop c ''name''),
                                   (''domain'', opt_prop c ''domain''),
                                   (''path'', opt_prop c ''path'')]
                           \<and> opt_prop (cdp_params (?d c)) ''partitionKey'' = JUndefined) cookies"
    by (simp add: list_all_iff deleteCookies_message_def opt_prop_def)
  with r show ?thesis
    by simp
qed

text \<open>
  The statement of C1 on the two cookies of the second end-to-end scenario, and with no
  cookie at all.
\<close>

theorem clearCookies_fan_out_witness:
  "routeCdpCommand method_not_found (ext_serving [cookie_s, cookie_t] rejects_none)
     [target_of ''S1'' ''T1''] (storage_command ''Storage.clearCookies'') [] =
     (Inr (JObj []),
      [\<lparr>ext_method = ''forwardCDPCommand'', ext_sessionId = ''S1'',
        cdp_method = ''Network.getCookies'', cdp_params = JObj []\<rparr>,
       \<lparr>ext_method = ''forwardCDPCommand'', ext_sessionId = ''S1'',
        cdp_method = ''Network.deleteCookies'',
        cdp_params = JObj [(''name'', JStr ''s''), (''domain'', JStr ''example.com''),
                           (''path'', JStr ''/'')]\<rparr>,
       \<lparr>ext_method = ''forwardCDPCommand'', ext_sessionId = ''S1'',
        cdp_method = ''Network.deleteCookies'',
        cdp_params = JObj [(''name'', JStr ''t''), (''domain'', JStr ''example.com''),
                           (''path'', JStr ''/a'')]\<rparr>])
   \<and> snd (routeCdpCommand method_not_found (ext_serving [] rejects_none)
          [target_of ''S1'' ''T1''] (storage_command ''Storage.clearCookies'') []) =
       [\<lparr>ext_method = ''forwardCDPCommand'', ext_sessionId = ''S1'',
         cdp_method = ''Network.getCookies'', cdp_params = JObj []\<rparr>]"
proof -
  let ?ext = "ext_serving [cookie_s, cookie_t] rejects_none"
  let ?none = "ext_serving [] rejects_none"
  have h1: "cmd_method (storage_command ''Storage.clearCookies'') = ''Storage.clearCookies''"
    by (rule scenario_method)
  have h2: "targetSessionId (cmd_sessionId (storage_command ''Storage.clearCookies''))
              [target_of ''S1'' ''T1''] = Some ''S1''"
    by (rule scenario_session)
  have h3: "''S1'' \<noteq> []" by simp
  have h4: "?ext [] (getCookies_message ''S1'') = Inr (JObj [(''cookies'', JArr [cookie_s, cookie_t])])"
    by (rule ext_serving_getCookies)
  have h5: "returned_cookies (JObj [(''cookies'', JArr [cookie_s, cookie_t])]) = Inr [cookie_s, cookie_t]"
    by (rule returned_cookies_array)
  have h6: "list_all present [cookie_s, cookie_t]"
    by (simp add: scenario_present)
  have h7: "\<forall>i<length [cookie_s, cookie_t].
             \<not> isl (?ext ([] @ getCookies_message ''S1'' #
                            map (deleteCookies_message ''S1'') (take i [cookie_s, cookie_t]))
                        (deleteCookies_message ''S1'' ([cookie_s, cookie_t] ! i)))"
    by (simp add: ext_serving_deleteCookies rejects_none_def)
  have two: "routeCdpCommand method_not_found ?ext [target_of ''S1'' ''T1'']
      (storage_command ''Storage.clearCookies'') [] =
      (Inr (JObj []),
       [] @ getCookies_message ''S1'' # map (deleteCookies_message ''S1'') [cookie_s, cookie_t])"
    by (rule clearCookies_fan_out [where ext = ?ext and sent = "[]" and other = method_not_found,
          OF h1 h2 h3 h4 h5 h6 h7, THEN conjunct1])
  have e4: "?none [] (getCookies_message ''S1'') = Inr (JObj [(''cookies'', JArr [])])"
    by (rule ext_serving_getCookies)
  have e5: "returned_cookies (JObj [(''cookies'', JArr [])]) = Inr []"
    by (rule returned_cookies_array)
  have e6: "list_all present []" by simp
  have e7: "\<forall>i<length [].
             \<not> isl (?none ([] @ getCookies_message ''S1'' #
                            map (deleteCookies_message ''S1'') (take i []))
                        (deleteCookies_message ''S1'' ([] ! i)))"
    by simp
  have "([] :: jsval list) = [] \<longrightarrow>
      snd (routeCdpCommand method_not_found ?none [target_of ''S1'' ''T1'']
             (storage_command ''Storage.clearCookies'') []) = [] @ [getCookies_message ''S1'']"
    by (rule clearCookies_fan_out [where ext = ?none and sent = "[]" and other = method_not_found,
          OF h1 h2 h3 e4 e5 e6 e7, THEN conjunct2, THEN conjunct2, THEN conjunct1])
  then have none: "snd (routeCdpCommand method_not_found ?none [target_of ''S1'' ''T1'']
             (storage_command ''Storage.clearCookies'') []) = [getCookies_message ''S1'']"
    by simp
  from two none show ?thesis
    by (simp add: getCookies_message_def deleteCookies_message_def opt_prop_def cookie_s_def
        cookie_t_def)
qed

text \<open>
  Claim C1 as it is stated fails on the partition key: the cookie returned has one, and
  the \<^verbatim>\<open>Network.deleteCookies\<close> sent for it has none.
\<close>

theorem clearCookies_partitionKey_counterexample:
  "routeCdpCommand method_not_found (ext_serving [cookie_partitioned] rejects_none)
     [target_of ''S1'' ''T1''] (storage_command ''Storage.clearCookies'') [] =
     (Inr (JObj []),
      [\<lparr>ext_method = ''forwardCDPCommand'', ext_sessionId = ''S1'',
        cdp_method = ''Network.getCookies'', cdp_params = JObj []\<rparr>,
       \<lparr>ext_method = ''forwardCDPCommand'', ext_sessionId = ''S1'',
        cdp_method = ''Network.deleteCookies'',
        cdp_params = JObj [(''name'', JStr ''p''), (''domain'', JStr ''example.com''),
                           (''path'', JStr ''/'')]\<rparr>])
   \<and> opt_prop cookie_partitioned ''partitionKey'' =
       JObj [(''topLevelSite'', JStr ''https://example.com''), (''hasCrossSiteAncestor'', JBool False)]
   \<and> opt_prop (JObj [(''name'', JStr ''p''), (''domain'', JStr ''example.com''), (''path'', JStr ''/'')])
        ''partitionKey'' = JUndefined"
  by (simp add: routeCdpCommand_def clearCookies_def sendToExtension_def forwardCDPCommand_def
      scenario_session scenario_method ext_serving_def returned_cookies_def opt_prop_def js_or_def
      cookie_partitioned_def deleteCookies_params_def rejects_none_def)

text \<open>
  Claim C2, as amended. During the \<^verbatim>\<open>Storage.clearCookies\<close> rewrite, when a
  \<^verbatim>\<open>Network.deleteCookies\<close> is rejected, the router stops there: the deletions of the
  cookies after it are not sent, and the error of that first rejected deletion is what the
  router returns, however many deletions succeeded before it.
\<close>

theorem clearCookies_stops_at_first_failure:
  assumes "cmd_method cmd = ''Storage.clearCookies''"
      and "targetSessionId (cmd_sessionId cmd) targets = Some sid"
      and "sid \<noteq> []"
      and "ext sent (getCookies_message sid) = Inr result"
      and "returned_cookies result = Inr (pre @ c # post)"
      and "list_all present pre" and "present c"
      and "\<forall>i<length pre.
             \<not> isl (ext (sent @ getCookies_message sid # map (deleteCookies_message sid) (take i pre))
                        (deleteCookies_message sid (pre ! i)))"
      and "ext (sent @ getCookies_message sid # map (deleteCookies_message sid) pre)
               (deleteCookies_message sid c) = Inl err"
  shows "routeCdpCommand other ext targets cmd sent =
           (Inl err,
            sent @ getCookies_message sid # map (deleteCookies_message sid) pre
                 @ [deleteCookies_message sid c])"
proof -
  let ?g = "getCookies_message sid" and ?d = "deleteCookies_message sid"
  have ok: "\<forall>i<length pre. \<not> isl (ext ((sent @ [?g]) @ map ?d (take i pre)) (?d (pre ! i)))"
    using assms(8) by simp
  have bad: "ext ((sent @ [?g]) @ map ?d pre) (?d c) = Inl err"
    using assms(9) by simp
  have "delete_each ext sid (pre @ c # post) (sent @ [?g]) =
          (Inl err, (sent @ [?g]) @ map ?d pre @ [?d c])"
    using assms(6,7) ok bad by (rule delete_each_rejected)
  with route_clearCookies [where ext = ext and sent = sent and other = other, OF assms(1-5)]
  show ?thesis
    by simp
qed

text \<open>
  The statement of C2 on three cookies where the deletion of the second is rejected: the
  first deletion succeeded, the third is never sent, and the error is returned.
\<close>

theorem clearCookies_stops_at_first_failure_witness:
  "routeCdpCommand method_not_found (ext_serving [cookie_t, cookie_s, cookie_partitioned] rejects_s)
     [target_of ''S1'' ''T1''] (storage_command ''Storage.clearCookies'') [] =
     (Inl (Error (Some (- 32000)) ''Could not delete cookie''),
      [getCookies_message ''S1'', deleteCookies_message ''S1'' cookie_t,
       deleteCookies_message ''S1'' cookie_s])"
proof -
  let ?ext = "ext_serving [cookie_t, cookie_s, cookie_partitioned] rejects_s"
  have h1: "cmd_method (storage_command ''Storage.clearCookies'') = ''Storage.clearCookies''"
    by (rule scenario_method)
  have h2: "targetSessionId (cmd_sessionId (storage_command ''Storage.clearCookies''))
              [target_of ''S1'' ''T1''] = Some ''S1''"
    by (rule scenario_session)
  have h3: "''S1'' \<noteq> []" by simp
  have h4: "?ext [] (getCookies_message ''S1'') =
      Inr (JObj [(''cookies'', JArr [cookie_t, cookie_s, cookie_partitioned])])"
    by (rule ext_serving_getCookies)
  have h5: "returned_cookies (JObj [(''cookies'', JArr [cookie_t, cookie_s, cookie_partitioned])])
      = Inr ([cookie_t] @ cookie_s # [cookie_partitioned])"
    by (simp add: returned_cookies_array)
  have h6: "list_all present [cookie_t]" by (simp add: scenario_present)
  have h7: "present cookie_s" by (rule scenario_present)
  have h8: "\<forall>i<length [cookie_t].
             \<not> isl (?ext ([] @ getCookies_message ''S1'' #
                            map (deleteCookies_message ''S1'') (take i [cookie_t]))
                        (deleteCookies_message ''S1'' ([cookie_t] ! i)))"
    by (simp add: ext_serving_deleteCookies scenario_rejects)
  have h9: "?ext ([] @ getCookies_message ''S1'' # map (deleteCookies_message ''S1'') [cookie_t])
               (deleteCookies_message ''S1'' cookie_s)
            = Inl (Error (Some (- 32000)) ''Could not delete cookie'')"
    by (simp add: ext_serving_deleteCookies scenario_rejects)
  from clearCookies_stops_at_first_failure [where ext = ?ext and sent = "[]"
      and other = method_not_found, OF h1 h2 h3 h4 h5 h6 h7 h8 h9]
  show ?thesis by simp
qed

text \<open>
  Claim C2 as it is stated fails twice. With the cookies \<open>s\<close> and \<open>t\<close>, the deletion of
  \<open>s\<close> is rejected and the deletion of \<open>t\<close>, which the extension would accept, is never
  sent. With the cookies in the other order, the deletion of \<open>t\<close> succeeds and the error
  of \<open>s\<close> is returned all the same.
\<close>

theorem clearCookies_partial_failure_counterexample:
  "routeCdpCommand method_not_found (ext_serving [cookie_s, cookie_t] rejects_s)
     [target_of ''S1'' ''T1''] (storage_command ''Storage.clearCookies'') [] =
     (Inl (Error (Some (- 32000)) ''Could not delete cookie''),
      [getCookies_message ''S1'', deleteCookies_message ''S1'' cookie_s])
   \<and> ext_serving [cookie_s, cookie_t] rejects_s
        [getCookies_message ''S1'', deleteCookies_message ''S1'' cookie_s]
        (deleteCookies_message ''S1'' cookie_t) = Inr (JObj [])
   \<and> routeCdpCommand method_not_found (ext_serving [cookie_t, cookie_s] rejects_s)
        [target_of ''S1'' ''T1''] (storage_command ''Storage.clearCookies'') [] =
       (Inl (Error (Some (- 32000)) ''Could not delete cookie''),
        [getCookies_message ''S1'', deleteCookies_message ''S1'' cookie_t,
         deleteCookies_message ''S1'' cookie_s])
   \<and> ext_serving [cookie_t, cookie_s] rejects_s [getCookies_message ''S1'']
        (deleteCookies_message ''S1'' cookie_t) = Inr (JObj [])"
proof -
  have step: "delete_each ext sid (c # cs) sent =
     (case ext sent (deleteCookies_message sid c) of
        Inl err \<Rightarrow> (Inl err, sent @ [deleteCookies_message sid c])
      | Inr r \<Rightarrow> delete_each ext sid cs (sent @ [deleteCookies_message sid c]))"
    if "present c" for ext sid c cs sent
    using that by (rule delete_each_step)
  have A: "routeCdpCommand method_not_found (ext_serving [cookie_s, cookie_t] rejects_s)
     [target_of ''S1'' ''T1''] (storage_command ''Storage.clearCookies'') [] =
     (Inl (Error (Some (- 32000)) ''Could not delete cookie''),
      [getCookies_message ''S1'', deleteCookies_message ''S1'' cookie_s])"
    by (simp add: routeCdpCommand_def clearCookies_def sendToExtension_def getCookies_message_eq
        scenario_session scenario_method ext_serving_getCookies returned_cookies_array
        step scenario_present ext_serving_deleteCookies scenario_rejects
        del: delete_each.simps)
  have B: "routeCdpCommand method_not_found (ext_serving [cookie_t, cookie_s] rejects_s)
        [target_of ''S1'' ''T1''] (storage_command ''Storage.clearCookies'') [] =
       (Inl (Error (Some (- 32000)) ''Could not delete cookie''),
        [getCookies_message ''S1'', deleteCookies_message ''S1'' cookie_t,
         deleteCookies_message ''S1'' cookie_s])"
    by (simp add: routeCdpCommand_def clearCookies_def sendToExtension_def getCookies_message_eq
        scenario_session scenario_method ext_serving_getCookies returned_cookies_array
        step scenario_present ext_serving_deleteCookies scenario_rejects
        del: delete_each.simps)
  from A B show ?thesis
    by (simp add: ext_serving_deleteCookies scenario_rejects)
qed

subsection \<open>No session\<close>

text \<open>
  Claim C3, as amended. When a Storage cookie command (\<^verbatim>\<open>Storage.getCookies\<close>,
  \<^verbatim>\<open>Storage.setCookies\<close> or \<^verbatim>\<open>Storage.clearCookies\<close>) carries no \<^verbatim>\<open>sessionId\<close> and no
  session is available, the client is answered with a CDP error of code \<open>-32000\<close> and
  nothing is sent to the extension. The message is the router's ``No pages available for
  cookie operation. ...'': it contains ``No pages available'', and it contains
  ``no page'' once letter case is ignored. The session helper of specs/features.md throws
  an error with the same opening words.
\<close>

theorem no_session_error:
  assumes "is_cookie_command (cmd_method cmd)"
      and "cmd_sessionId cmd = None"
      and "\<not> truthy_string (getAnyActiveSessionId targets)"
  shows "handle_client_frame other ext targets \<lparr>frame_id = rid, frame_command = cmd\<rparr> sent =
           (Error_frame rid (- 32000) no_pages_message, sent)
         \<and> sublist ''No pages available'' no_pages_message
         \<and> sublist ''no page'' (map to_lower no_pages_message)
         \<and> getAnyActiveSession ws [] = Inl (Error None no_pages_message_features)
         \<and> getAnyActiveSession None sessions = Inl (Error None no_pages_message_features)
         \<and> sublist ''No pages available'' no_pages_message_features"
proof -
  have "\<not> truthy_string (targetSessionId (cmd_sessionId cmd) targets)"
    using assms(2,3) by (simp add: targetSessionId_def truthy_string_def)
  with assms(1)
  have "routeCdpCommand other ext targets cmd sent = (Inl (Error None no_pages_message), sent)"
    by (rule route_no_session)
  then have "handle_client_frame other ext targets \<lparr>frame_id = rid, frame_command = cmd\<rparr> sent =
           (Error_frame rid (- 32000) no_pages_message, sent)"
    by (simp add: handle_client_frame_def reply_to_client_def)
  moreover have "sublist ''No pages available'' no_pages_message"
    by code_simp
  moreover have "sublist ''no page'' (map to_lower no_pages_message)"
    by code_simp
  moreover have "sublist ''No pages available'' no_pages_message_features"
    by code_simp
  ultimately show ?thesis by (simp add: getAnyActiveSession_def)
qed

text \<open>The statement of C3 at \<^verbatim>\<open>Storage.clearCookies\<close> with an empty registry.\<close>

theorem no_session_error_witness:
  "is_cookie_command (cmd_method (storage_command ''Storage.clearCookies''))
   \<and> cmd_sessionId (storage_command ''Storage.clearCookies'') = None
   \<and> \<not> truthy_string (getAnyActiveSessionId [])
   \<and> handle_client_frame method_not_found ext_no_cookies []
        \<lparr>frame_id = 3, frame_command = storage_command ''Storage.clearCookies''\<rparr> [] =
        (Error_frame 3 (- 32000) no_pages_message, [])"
proof -
  have a: "is_cookie_command (cmd_method (storage_command ''Storage.clearCookies''))"
    by (simp add: is_cookie_command_def storage_command_def)
  have b: "cmd_sessionId (storage_command ''Storage.clearCookies'') = None"
    by (simp add: storage_command_def)
  have c: "\<not> truthy_string (getAnyActiveSessionId [])"
    by (simp add: getAnyActiveSessionId_def truthy_string_def)
  note h = no_session_error [OF a b c, of method_not_found ext_no_cookies 3 "[]" "None :: nat option" "[]",
      THEN conjunct1]
  show ?thesis by (intro conjI a b c h)
qed

text \<open>
  Claim C3 as it is stated fails on the message: the error sent for
  \<^verbatim>\<open>{id: 3, method: "Storage.getCookies"}\<close> with no target attached does not contain
  the text ``no page''; its first word is capitalised.
\<close>

theorem no_session_message_counterexample:
  "handle_client_frame method_not_found ext_no_cookies []
     \<lparr>frame_id = 3, frame_command = storage_command ''Storage.getCookies''\<rparr> [] =
     (Error_frame 3 (- 32000)
        ''No pages available for cookie operation. Click the playwriter extension icon on a tab first.'',
      [])
   \<and> \<not> sublist ''no page''
        ''No pages available for cookie operation. Click the playwriter extension icon on a tab first.''"
proof -
  have "handle_client_frame method_not_found ext_no_cookies []
     \<lparr>frame_id = 3, frame_command = storage_command ''Storage.getCookies''\<rparr> [] =
     (Error_frame 3 (- 32000)
        ''No pages available for cookie operation. Click the playwriter extension icon on a tab first.'',
      [])"
    by (simp add: handle_client_frame_def routeCdpCommand_def storage_command_def
        targetSessionId_def truthy_string_def getAnyActiveSessionId_def reply_to_client_def
        no_pages_message_def)
  moreover have "\<not> sublist ''no page''
        ''No pages available for cookie operation. Click the playwriter extension icon on a tab first.''"
    by code_simp
  ultimately show ?thesis by simp
qed

subsection \<open>The session chosen\<close>




subsection \<open>Reading the cookies\<close>

text \<open>
  Claim C5. For a \<^verbatim>\<open>Storage.getCookies\<close> command, when a session is available, the
  router sends the extension one \<^verbatim>\<open>Network.getCookies\<close> on the chosen session with the
  empty parameter object (no \<^verbatim>\<open>urls\<close>), and when the extension answers with a result,
  that result, unchanged, is what the router returns and what the client receives under
  the id of its request.
\<close>

theorem getCookies_rewrite:
  assumes "cmd_method cmd = ''Storage.getCookies''"
      and "targetSessionId (cmd_sessionId cmd) targets = Some sid"
      and "sid \<noteq> []"
      and "ext sent (forwardCDPCommand sid ''Network.getCookies'' (JObj [])) = Inr result"
  shows "handle_client_frame other ext targets \<lparr>frame_id = rid, frame_command = cmd\<rparr> sent =
           (Result_frame rid result,
            sent @ [\<lparr>ext_method = ''forwardCDPCommand'', ext_sessionId = sid,
                     cdp_method = ''Network.getCookies'', cdp_params = JObj []\<rparr>])
         \<and> routeCdpCommand other ext targets cmd sent =
           (Inr result,
            sent @ [\<lparr>ext_method = ''forwardCDPCommand'', ext_sessionId = sid,
                     cdp_method = ''Network.getCookies'', cdp_params = JObj []\<rparr>])
         \<and> opt_prop (JObj []) ''urls'' = JUndefined"
  using assms
  by (simp add: handle_client_frame_def routeCdpCommand_def sendToExtension_def
      forwardCDPCommand_def reply_to_client_def opt_prop_def)

text \<open>The statement of C5 on the cookie read of the first end-to-end scenario.\<close>

theorem getCookies_rewrite_witness:
  "handle_client_frame method_not_found (ext_serving [cookie_s] rejects_none)
     [target_of ''S1'' ''T1'']
     \<lparr>frame_id = 1, frame_command = storage_command ''Storage.getCookies''\<rparr> [] =
     (Result_frame 1
        (JObj [(''cookies'', JArr [JObj [(''name'', JStr ''s''), (''value'', JStr ''1''),
                                         (''domain'', JStr ''example.com''), (''path'', JStr ''/'')]])]),
      [\<lparr>ext_method = ''forwardCDPCommand'', ext_sessionId = ''S1'',
        cdp_method = ''Network.getCookies'', cdp_params = JObj []\<rparr>])"
proof -
  let ?ext = "ext_serving [cookie_s] rejects_none"
  have h1: "cmd_method (storage_command ''Storage.getCookies'') = ''Storage.getCookies''"
    by (rule scenario_method)
  have h2: "targetSessionId (cmd_sessionId (storage_command ''Storage.getCookies''))
              [target_of ''S1'' ''T1''] = Some ''S1''"
    by (rule scenario_session)
  have h3: "''S1'' \<noteq> []" by simp
  have h4: "?ext [] (forwardCDPCommand ''S1'' ''Network.getCookies'' (JObj []))
      = Inr (JObj [(''cookies'', JArr [cookie_s])])"
    by (simp add: getCookies_message_eq ext_serving_getCookies)
  from getCookies_rewrite [where ext = ?ext and sent = "[]" and other = method_not_found
      and rid = 1, OF h1 h2 h3 h4, THEN conjunct1]
  show ?thesis by (simp add: cookie_s_def)
qed

end
